theory Spec2Isabelle
  imports Complex_Main "HOL-Library.Multiset" "HOL-Library.Word"
begin

section \<open>Node graph data model\<close>

text \<open>
  The translated file is \<^verbatim>\<open>source/blender/blenloader/intern/versioning_400.cc\<close>.
  Pointers to nodes become indices into the node list of the owning tree, pointers to sockets
  become a triple (node, side, position in that side's socket list), and a null pointer is
  \<open>None\<close>. C \<^verbatim>\<open>float\<close> values are modelled as \<open>real\<close>; the properties below only compare
  them with the constants 0, 1 and 2 and subtract one, rounding is not modelled.
\<close>

datatype eNodeSocketInOut = SOCK_IN | SOCK_OUT

datatype sock_ref = SockRef (ref_node: nat) (ref_side: eNodeSocketInOut) (ref_index: nat)

type_synonym sock_ptr = "sock_ref option"

datatype eNodeSocketDatatype = SOCK_FLOAT | SOCK_RGBA | SOCK_OTHER_DATATYPE int

text \<open>
  Modelled from the spec: the record behind \<^verbatim>\<open>bNodeSocket::default_value\<close> is declared
  outside the translated file; a socket "carries a default value when unconnected", here a
  scalar or a colour of four components.
\<close>

datatype sock_value = FloatValue real | RGBAValue real real real real | NoValue

text \<open>
  Dereferencing a null pointer, or a pointer that does not resolve in the tree, reading a
  default value through a cast to the wrong value record, and using an array slot that was
  never written are failures of the model.
\<close>

datatype crash = NullPointer | InvalidPointer | BadCast | Uninitialized

section \<open>Node tree interface data model\<close>

text \<open>
  Flag words are modelled as sets of the named flags; \<^verbatim>\<open>flag & F\<close> is membership,
  \<^verbatim>\<open>flag |= F\<close> insertion and \<^verbatim>\<open>flag &= ~F\<close> removal. The numeric values of the flags are
  declared outside the translated file.
\<close>

datatype interface_socket_flag =
    NODE_INTERFACE_SOCKET_INPUT
  | NODE_INTERFACE_SOCKET_OUTPUT
  | NODE_INTERFACE_SOCKET_HIDE_VALUE
  | NODE_INTERFACE_SOCKET_HIDE_IN_MODIFIER
  | NODE_INTERFACE_SOCKET_OTHER_FLAG nat

datatype interface_panel_flag =
    NODE_INTERFACE_PANEL_ALLOW_SOCKETS_AFTER_PANELS
  | NODE_INTERFACE_PANEL_OTHER_FLAG nat

datatype legacy_socket_flag = SOCK_HIDE_VALUE | SOCK_HIDE_IN_MODIFIER | SOCK_OTHER_FLAG nat

type_synonym IDProperty = string

record bNodeTreeInterfaceSocket =
  name :: string
  description :: string
  socket_type :: string
  socket_flag :: "interface_socket_flag set"
  attribute_domain :: int
  default_attribute_name :: "string option"
  socket_identifier :: string
  socket_data :: "sock_value option"
  properties :: "IDProperty option"

datatype bNodeTreeInterfaceItem =
    Socket_item bNodeTreeInterfaceSocket
  | Panel_item bNodeTreeInterfacePanel
and bNodeTreeInterfacePanel =
    Panel (panel_name: string) (panel_flag: "interface_panel_flag set")
      (items_array: "bNodeTreeInterfaceItem list")

datatype NodeTreeInterfaceItemType = NODE_INTERFACE_SOCKET | NODE_INTERFACE_PANEL

fun item_type :: "bNodeTreeInterfaceItem \<Rightarrow> NodeTreeInterfaceItemType" where
  "item_type (Socket_item _) = NODE_INTERFACE_SOCKET"
| "item_type (Panel_item _) = NODE_INTERFACE_PANEL"

text \<open>
  The counter \<^verbatim>\<open>next_uid\<close> is a C \<^verbatim>\<open>int\<close>: a word of 32 bits that is read as a signed
  number (\<open>sint\<close>), and whose increment wraps around from 2147483647 to -2147483648.
\<close>

record bNodeTreeInterface =
  root_panel :: bNodeTreeInterfacePanel
  next_uid :: "32 word"

text \<open>
  The sockets of the legacy lists \<^verbatim>\<open>inputs_legacy\<close> and \<^verbatim>\<open>outputs_legacy\<close>: the fields of
  \<^verbatim>\<open>bNodeSocket\<close> that \<^verbatim>\<open>legacy_socket_move_to_interface\<close> reads or clears.
\<close>

record bNodeSocket_legacy =
  legacy_name :: string
  legacy_identifier :: string
  legacy_description :: string
  idname :: string
  legacy_flag :: "legacy_socket_flag set"
  legacy_attribute_domain :: int
  legacy_default_attribute_name :: "string option"
  legacy_default_value :: "sock_value option"
  legacy_prop :: "IDProperty option"
  runtime :: "unit option"

section \<open>Nodes, sockets and links\<close>

text \<open>
  The fields of \<^verbatim>\<open>bNodeSocket\<close>, \<^verbatim>\<open>bNode\<close>, \<^verbatim>\<open>bNodeLink\<close> and \<^verbatim>\<open>bNodeTree\<close> that the
  translated functions read or write. A node is named by its position in \<^verbatim>\<open>ntree->nodes\<close>.
\<close>

record bNodeSocket =
  sock_identifier :: string
  sock_type :: eNodeSocketDatatype
  default_value :: sock_value

text \<open>
  The node kinds that \<^verbatim>\<open>versioning_eevee_alpha_source_get\<close> and its caller name; every
  other value of \<^verbatim>\<open>bNode::type\<close> is \<open>NODE_OTHER_TYPE\<close>.
\<close>

datatype node_type =
    NODE_REROUTE
  | NODE_GROUP
  | SH_NODE_BSDF_TRANSPARENT
  | SH_NODE_MIX_SHADER
  | SH_NODE_ADD_SHADER
  | SH_NODE_BSDF_PRINCIPLED
  | SH_NODE_EEVEE_SPECULAR
  | SH_NODE_OUTPUT_MATERIAL
  | NODE_OTHER_TYPE int

datatype node_flag = NODE_HIDDEN | NODE_OTHER_FLAG nat

record bNode =
  node_type :: node_type
  inputs :: "bNodeSocket list"
  outputs :: "bNodeSocket list"
  custom1 :: int
  flag :: "node_flag set"
  parent :: "nat option"
  locx :: real
  locy :: real
  width :: real

record bNodeLink =
  fromnode :: nat
  fromsock :: sock_ref
  tonode :: nat
  tosock :: sock_ref

record bNodeTree =
  nodes :: "bNode list"
  links :: "bNodeLink list"
  inputs_legacy :: "bNodeSocket_legacy list"
  outputs_legacy :: "bNodeSocket_legacy list"
  tree_interface :: bNodeTreeInterface

text \<open>
  What the translated file takes from the rest of the program and does not define itself:
  the socket lookup by identifier, the lookup of the active output node, the node (with its
  default sockets) that a type name creates, and two constants. They are parameters of the
  model; every theorem below holds for each choice of them.
\<close>

record bke =
  nodeFindSocket :: "bNode \<Rightarrow> eNodeSocketInOut \<Rightarrow> string \<Rightarrow> nat option"
  version_eevee_output_node_get :: "bNodeTree \<Rightarrow> node_type \<Rightarrow> nat option"
  node_type_new :: "string \<Rightarrow> bNode"
  NODE_MATH_GREATER_THAN :: int
  RE_engine_id_BLENDER_EEVEE :: string


definition node_at :: "bNodeTree \<Rightarrow> nat \<Rightarrow> bNode option" where
  "node_at t n = (if n < length (nodes t) then Some (nodes t ! n) else None)"

definition side_sockets :: "bNode \<Rightarrow> eNodeSocketInOut \<Rightarrow> bNodeSocket list" where
  "side_sockets node io = (case io of SOCK_IN \<Rightarrow> inputs node | SOCK_OUT \<Rightarrow> outputs node)"

definition socket_at :: "bNodeTree \<Rightarrow> sock_ref \<Rightarrow> bNodeSocket option" where
  "socket_at t s =
     (case node_at t (ref_node s) of
        None \<Rightarrow> None
      | Some node \<Rightarrow>
          (if ref_index s < length (side_sockets node (ref_side s))
           then Some (side_sockets node (ref_side s) ! ref_index s) else None))"

text \<open>
  \<^verbatim>\<open>socket->link\<close>: the link of the tree that ends in this socket (an input accepts at most
  one), null when there is none. The source keeps this pointer in the socket; the model
  looks the link up in the link list of the tree, with which the pointer agrees.
\<close>

definition sock_link :: "bNodeTree \<Rightarrow> sock_ref \<Rightarrow> bNodeLink option" where
  "sock_link t s = find (\<lambda>l. tosock l = s) (links t)"

text \<open>\<^verbatim>\<open>BLI_findlink(&node->inputs, n)\<close>: the n-th input socket, null past the end.\<close>

definition findlink_inputs :: "nat \<Rightarrow> bNode \<Rightarrow> nat \<Rightarrow> sock_ptr" where
  "findlink_inputs node_id node n =
     (if n < length (inputs node) then Some (SockRef node_id SOCK_IN n) else None)"

definition find_socket :: "bke \<Rightarrow> nat \<Rightarrow> bNode \<Rightarrow> eNodeSocketInOut \<Rightarrow> string \<Rightarrow> sock_ptr" where
  "find_socket K node_id node io ident =
     map_option (SockRef node_id io) (nodeFindSocket K node io ident)"

text \<open>
  Modelled from the spec: \<^verbatim>\<open>version_cycles_node_socket_float_value\<close> and
  \<^verbatim>\<open>version_cycles_node_socket_rgba_value\<close> are defined outside the translated file; they
  give access to the scalar, respectively the colour, that the socket carries as its default
  value.
\<close>

definition version_cycles_node_socket_float_value ::
    "bNodeTree \<Rightarrow> sock_ptr \<Rightarrow> crash + real" where
  "version_cycles_node_socket_float_value t p =
     (case p of
        None \<Rightarrow> Inl NullPointer
      | Some s \<Rightarrow>
          (case socket_at t s of
             None \<Rightarrow> Inl InvalidPointer
           | Some sock \<Rightarrow>
               (case default_value sock of FloatValue v \<Rightarrow> Inr v | _ \<Rightarrow> Inl BadCast)))"

definition version_cycles_node_socket_rgba_value ::
    "bNodeTree \<Rightarrow> sock_ptr \<Rightarrow> crash + real \<times> real \<times> real \<times> real" where
  "version_cycles_node_socket_rgba_value t p =
     (case p of
        None \<Rightarrow> Inl NullPointer
      | Some s \<Rightarrow>
          (case socket_at t s of
             None \<Rightarrow> Inl InvalidPointer
           | Some sock \<Rightarrow>
               (case default_value sock of
                  RGBAValue r g b a \<Rightarrow> Inr (r, g, b, a)
                | _ \<Rightarrow> Inl BadCast)))"

text \<open>\<^verbatim>\<open>socket->link\<close> read through a pointer that may be null or dangling.\<close>

definition ptr_link :: "bNodeTree \<Rightarrow> sock_ptr \<Rightarrow> crash + bNodeLink option" where
  "ptr_link t p =
     (case p of
        None \<Rightarrow> Inl NullPointer
      | Some s \<Rightarrow>
          (case socket_at t s of
             None \<Rightarrow> Inl InvalidPointer
           | Some _ \<Rightarrow> Inr (sock_link t s)))"

section \<open>AlphaSource\<close>

datatype AlphaState =
    ALPHA_OPAQUE
  | ALPHA_FULLY_TRANSPARENT
  | ALPHA_SEMI_TRANSPARENT
  | ALPHA_COMPLEX_MIX

record AlphaSource =
  socket :: sock_ptr
  state :: AlphaState
  is_transparency :: bool

definition alpha_source :: "sock_ptr \<Rightarrow> bool \<Rightarrow> AlphaSource" where
  "alpha_source fac inverted =
     \<lparr>socket = fac, state = ALPHA_SEMI_TRANSPARENT, is_transparency = inverted\<rparr>"

definition opaque :: AlphaSource where
  "opaque = \<lparr>socket = None, state = ALPHA_OPAQUE, is_transparency = False\<rparr>"

definition fully_transparent :: "sock_ptr \<Rightarrow> bool \<Rightarrow> AlphaSource" where
  "fully_transparent sock inverted =
     \<lparr>socket = sock, state = ALPHA_FULLY_TRANSPARENT, is_transparency = inverted\<rparr>"

definition complex_alpha :: AlphaSource where
  "complex_alpha = \<lparr>socket = None, state = ALPHA_COMPLEX_MIX, is_transparency = False\<rparr>"

definition is_opaque :: "AlphaSource \<Rightarrow> bool" where
  "is_opaque a = (state a = ALPHA_OPAQUE)"

definition is_fully_transparent :: "AlphaSource \<Rightarrow> bool" where
  "is_fully_transparent a = (state a = ALPHA_FULLY_TRANSPARENT)"

definition is_transparent :: "AlphaSource \<Rightarrow> bool" where
  "is_transparent a = (state a \<noteq> ALPHA_OPAQUE)"

definition is_semi_transparent :: "AlphaSource \<Rightarrow> bool" where
  "is_semi_transparent a = (state a = ALPHA_SEMI_TRANSPARENT)"

definition is_complex :: "AlphaSource \<Rightarrow> bool" where
  "is_complex a = (state a = ALPHA_COMPLEX_MIX)"

text \<open>\<^verbatim>\<open>AlphaSource::mix\<close>: combine two sources with a blending parameter.\<close>

definition mix :: "AlphaSource \<Rightarrow> AlphaSource \<Rightarrow> sock_ptr \<Rightarrow> AlphaSource" where
  "mix a b fac =
     (if is_complex a \<or> is_complex b then complex_alpha
      else if is_semi_transparent a \<or> is_semi_transparent b then complex_alpha
      else if is_fully_transparent a \<and> is_fully_transparent b then fully_transparent None False
      else if is_opaque a \<and> is_opaque b then opaque
      else alpha_source fac (\<not> is_transparent a))"

text \<open>\<^verbatim>\<open>AlphaSource::add\<close>: combine two sources with an additive blending parameter.\<close>

definition add :: "AlphaSource \<Rightarrow> AlphaSource \<Rightarrow> AlphaSource" where
  "add a b =
     (if is_complex a \<or> is_complex b then complex_alpha
      else if is_semi_transparent a \<and> is_transparent b then complex_alpha
      else if is_transparent a \<and> is_semi_transparent b then complex_alpha
      else if is_transparent a then a else b)"

section \<open>The alpha source of a closure socket\<close>

text \<open>
  The cases of the switch in \<^verbatim>\<open>versioning_eevee_alpha_source_get\<close> that do not recurse. For
  the transparent BSDF the colour input decides, for the principled BSDF the alpha input, for
  the specular BSDF the transparency input (with inverted sense).
\<close>

definition alpha_bsdf_transparent :: "bke \<Rightarrow> bNodeTree \<Rightarrow> nat \<Rightarrow> bNode \<Rightarrow> crash + AlphaSource" where
  "alpha_bsdf_transparent K t node_id node =
     (let sock = find_socket K node_id node SOCK_IN ''Color'' in
      case ptr_link t sock of
        Inl e \<Rightarrow> Inl e
      | Inr (Some _) \<Rightarrow> Inr (alpha_source sock True)
      | Inr None \<Rightarrow>
          (case version_cycles_node_socket_rgba_value t sock of
             Inl e \<Rightarrow> Inl e
           | Inr (r, g, b, a) \<Rightarrow>
               (if r = 0 \<and> g = 0 \<and> b = 0 then Inr opaque
                else if r = 1 \<and> g = 1 \<and> b = 1 then Inr (fully_transparent sock True)
                else Inr (alpha_source sock True))))"

definition alpha_bsdf_principled :: "bke \<Rightarrow> bNodeTree \<Rightarrow> nat \<Rightarrow> bNode \<Rightarrow> crash + AlphaSource" where
  "alpha_bsdf_principled K t node_id node =
     (let sock = find_socket K node_id node SOCK_IN ''Alpha'' in
      case ptr_link t sock of
        Inl e \<Rightarrow> Inl e
      | Inr (Some _) \<Rightarrow> Inr (alpha_source sock False)
      | Inr None \<Rightarrow>
          (case version_cycles_node_socket_float_value t sock of
             Inl e \<Rightarrow> Inl e
           | Inr v \<Rightarrow>
               (if v = 0 then Inr (fully_transparent sock False)
                else if v = 1 then Inr opaque
                else Inr (alpha_source sock False))))"

definition alpha_eevee_specular :: "bke \<Rightarrow> bNodeTree \<Rightarrow> nat \<Rightarrow> bNode \<Rightarrow> crash + AlphaSource" where
  "alpha_eevee_specular K t node_id node =
     (let sock = find_socket K node_id node SOCK_IN ''Transparency'' in
      case ptr_link t sock of
        Inl e \<Rightarrow> Inl e
      | Inr (Some _) \<Rightarrow> Inr (alpha_source sock True)
      | Inr None \<Rightarrow>
          (case version_cycles_node_socket_float_value t sock of
             Inl e \<Rightarrow> Inl e
           | Inr v \<Rightarrow>
               (if v = 0 then Inr (fully_transparent sock True)
                else if v = 1 then Inr opaque
                else Inr (alpha_source sock True))))"

text \<open>
  The mix shader once both operands are classified: an unconnected factor of exactly 0 or 1
  selects one operand, anything else mixes.
\<close>

definition alpha_mix_shader ::
    "bke \<Rightarrow> bNodeTree \<Rightarrow> nat \<Rightarrow> bNode \<Rightarrow> AlphaSource \<Rightarrow> AlphaSource \<Rightarrow> crash + AlphaSource" where
  "alpha_mix_shader K t node_id node src0 src1 =
     (let sock = find_socket K node_id node SOCK_IN ''Fac'' in
      case ptr_link t sock of
        Inl e \<Rightarrow> Inl e
      | Inr (Some _) \<Rightarrow> Inr (mix src0 src1 sock)
      | Inr None \<Rightarrow>
          (case version_cycles_node_socket_float_value t sock of
             Inl e \<Rightarrow> Inl e
           | Inr v \<Rightarrow>
               (if v = 0 then Inr src0
                else if v = 1 then Inr src1
                else Inr (mix src0 src1 sock))))"

text \<open>
  \<^verbatim>\<open>versioning_eevee_alpha_source_get(socket, depth)\<close>. The tree is an argument because the
  pointers of the source are resolved in it. The two operands of a mix or add shader are
  classified one after the other, as the source does; a failure of the first ends the call.
\<close>

function versioning_eevee_alpha_source_get ::
    "bke \<Rightarrow> bNodeTree \<Rightarrow> sock_ptr \<Rightarrow> int \<Rightarrow> crash + AlphaSource" where
  "versioning_eevee_alpha_source_get K t sock depth =
     (if depth > 100 then Inr complex_alpha
      else
        (case ptr_link t sock of
           Inl e \<Rightarrow> Inl e
         | Inr None \<Rightarrow> Inr opaque
         | Inr (Some l) \<Rightarrow>
             (case node_at t (fromnode l) of
                None \<Rightarrow> Inl InvalidPointer
              | Some node \<Rightarrow>
                  (case node_type node of
                     NODE_REROUTE \<Rightarrow>
                       versioning_eevee_alpha_source_get K t
                         (findlink_inputs (fromnode l) node 0) (depth + 1)
                   | NODE_GROUP \<Rightarrow> Inr complex_alpha
                   | SH_NODE_BSDF_TRANSPARENT \<Rightarrow> alpha_bsdf_transparent K t (fromnode l) node
                   | SH_NODE_MIX_SHADER \<Rightarrow>
                       (case versioning_eevee_alpha_source_get K t
                               (findlink_inputs (fromnode l) node 1) (depth + 1) of
                          Inl e \<Rightarrow> Inl e
                        | Inr src0 \<Rightarrow>
                            (case versioning_eevee_alpha_source_get K t
                                    (findlink_inputs (fromnode l) node 2) (depth + 1) of
                               Inl e \<Rightarrow> Inl e
                             | Inr src1 \<Rightarrow> alpha_mix_shader K t (fromnode l) node src0 src1))
                   | SH_NODE_ADD_SHADER \<Rightarrow>
                       (case versioning_eevee_alpha_source_get K t
                               (findlink_inputs (fromnode l) node 0) (depth + 1) of
                          Inl e \<Rightarrow> Inl e
                        | Inr src0 \<Rightarrow>
                            (case versioning_eevee_alpha_source_get K t
                                    (findlink_inputs (fromnode l) node 1) (depth + 1) of
                               Inl e \<Rightarrow> Inl e
                             | Inr src1 \<Rightarrow> Inr (add src0 src1)))
                   | SH_NODE_BSDF_PRINCIPLED \<Rightarrow> alpha_bsdf_principled K t (fromnode l) node
                   | SH_NODE_EEVEE_SPECULAR \<Rightarrow> alpha_eevee_specular K t (fromnode l) node
                   | SH_NODE_OUTPUT_MATERIAL \<Rightarrow> Inr opaque
                   | NODE_OTHER_TYPE _ \<Rightarrow> Inr opaque))))"
  by pat_completeness auto
termination
  by (relation "measure (\<lambda>(K, t, sock, depth). nat (101 - depth))") auto

section \<open>Node graph rewriting\<close>

text \<open>
  Modelled from the spec: \<^verbatim>\<open>nodeRemLink\<close>, \<^verbatim>\<open>nodeAddNode\<close> and \<^verbatim>\<open>nodeAddLink\<close> are
  defined outside the translated file. The spec gives their contracts: \<open>remove_link(link)\<close>
  removes the link; \<open>add_node(type)\<close> "creates a node with its type's default sockets";
  \<open>add_link(from_socket, to_socket)\<close>: "if \<open>to_socket\<close> already has an incoming link, that
  link is removed first". A new node is appended to the node list, a new link to the link
  list.
\<close>

definition nodeRemLink :: "bNodeTree \<Rightarrow> bNodeLink \<Rightarrow> bNodeTree" where
  "nodeRemLink t l = t\<lparr>links := remove1 l (links t)\<rparr>"

definition nodeAddNode :: "bke \<Rightarrow> bNodeTree \<Rightarrow> string \<Rightarrow> bNodeTree \<times> nat" where
  "nodeAddNode K t type_idname =
     (t\<lparr>nodes := nodes t @ [node_type_new K type_idname]\<rparr>, length (nodes t))"

definition nodeAddLink ::
    "bNodeTree \<Rightarrow> nat \<Rightarrow> sock_ptr \<Rightarrow> nat \<Rightarrow> sock_ptr \<Rightarrow> crash + bNodeTree" where
  "nodeAddLink t from_node from_sock to_node to_sock =
     (case from_sock of
        None \<Rightarrow> Inl NullPointer
      | Some fs \<Rightarrow>
          (case to_sock of
             None \<Rightarrow> Inl NullPointer
           | Some ts \<Rightarrow>
               (let t1 = (case sock_link t ts of None \<Rightarrow> t | Some old \<Rightarrow> nodeRemLink t old)
                in Inr (t1\<lparr>links := links t1 @
                     [\<lparr>fromnode = from_node, fromsock = fs, tonode = to_node, tosock = ts\<rparr>]\<rparr>))))"

definition update_node :: "bNodeTree \<Rightarrow> nat \<Rightarrow> (bNode \<Rightarrow> bNode) \<Rightarrow> bNodeTree" where
  "update_node t n f = t\<lparr>nodes := (nodes t)[n := f (nodes t ! n)]\<rparr>"

definition set_default_value :: "bNodeTree \<Rightarrow> sock_ref \<Rightarrow> sock_value \<Rightarrow> bNodeTree" where
  "set_default_value t s v =
     update_node t (ref_node s)
       (\<lambda>node. case ref_side s of
            SOCK_IN \<Rightarrow>
              node\<lparr>inputs := (inputs node)[ref_index s :=
                (inputs node ! ref_index s)\<lparr>default_value := v\<rparr>]\<rparr>
          | SOCK_OUT \<Rightarrow>
              node\<lparr>outputs := (outputs node)[ref_index s :=
                (outputs node ! ref_index s)\<lparr>default_value := v\<rparr>]\<rparr>)"

text \<open>Assignments through the two value accessors.\<close>

definition write_float_value :: "bNodeTree \<Rightarrow> sock_ptr \<Rightarrow> real \<Rightarrow> crash + bNodeTree" where
  "write_float_value t p v =
     (case version_cycles_node_socket_float_value t p of
        Inl e \<Rightarrow> Inl e
      | Inr _ \<Rightarrow>
          (case p of
             None \<Rightarrow> Inl NullPointer
           | Some s \<Rightarrow> Inr (set_default_value t s (FloatValue v))))"

definition write_rgba_value ::
    "bNodeTree \<Rightarrow> sock_ptr \<Rightarrow> real \<times> real \<times> real \<times> real \<Rightarrow> crash + bNodeTree" where
  "write_rgba_value t p v =
     (case version_cycles_node_socket_rgba_value t p of
        Inl e \<Rightarrow> Inl e
      | Inr _ \<Rightarrow>
          (case p of
             None \<Rightarrow> Inl NullPointer
           | Some s \<Rightarrow>
               (case v of (r, g, b, a) \<Rightarrow> Inr (set_default_value t s (RGBAValue r g b a)))))"

section \<open>Blend mode conversion of one material node tree\<close>

text \<open>The branch for the fully opaque target (\<^verbatim>\<open>threshold == 2.0f\<close>).\<close>

definition blend_mode_force_opaque ::
    "bNodeTree \<Rightarrow> AlphaSource \<Rightarrow> sock_ref \<Rightarrow> crash + bNodeTree" where
  "blend_mode_force_opaque ntree alpha s =
     (case ptr_link ntree (Some s) of
        Inl e \<Rightarrow> Inl e
      | Inr lk \<Rightarrow>
          (let t1 = (case lk of None \<Rightarrow> ntree | Some l \<Rightarrow> nodeRemLink ntree l);
               v = (if is_transparency alpha then 0 else 1)
           in case socket_at t1 s of
                None \<Rightarrow> Inl InvalidPointer
              | Some sock \<Rightarrow>
                  (if sock_type sock = SOCK_RGBA
                   then write_rgba_value t1 (Some s) (v, v, v, 1)
                   else write_float_value t1 (Some s) v)))"

text \<open>The branch that inserts the math node on the link \<open>l\<close> into the alpha socket.\<close>

definition blend_mode_insert_math ::
    "bke \<Rightarrow> bNodeTree \<Rightarrow> AlphaSource \<Rightarrow> bNodeLink \<Rightarrow> real \<Rightarrow> crash + bNodeTree" where
  "blend_mode_insert_math K ntree alpha l threshold =
     (case node_at ntree (tonode l) of
        None \<Rightarrow> Inl InvalidPointer
      | Some to_node \<Rightarrow>
          (case node_at ntree (fromnode l) of
             None \<Rightarrow> Inl InvalidPointer
           | Some from_node \<Rightarrow>
               (let t1 = nodeRemLink ntree l;
                    (t2, math_id) = nodeAddNode K t1 ''ShaderNodeMath'';
                    t3 = update_node t2 math_id
                           (\<lambda>m. m\<lparr>custom1 := NODE_MATH_GREATER_THAN K,
                                   flag := insert NODE_HIDDEN (flag m),
                                   parent := parent to_node,
                                   locx := locx to_node - width m - 30,
                                   locy := min (locy to_node) (locy from_node)\<rparr>);
                    math_node = nodes t3 ! math_id;
                    input_1 = findlink_inputs math_id math_node 0;
                    input_2 = findlink_inputs math_id math_node 1;
                    output = (if outputs math_node = [] then None
                              else Some (SockRef math_id SOCK_OUT 0))
                in case nodeAddLink t3 (fromnode l) (Some (fromsock l)) math_id input_1 of
                     Inl e \<Rightarrow> Inl e
                   | Inr t4 \<Rightarrow>
                       (case nodeAddLink t4 math_id output (tonode l) (Some (tosock l)) of
                          Inl e \<Rightarrow> Inl e
                        | Inr t5 \<Rightarrow>
                            write_float_value t5 input_2
                              (if is_transparency alpha then 1 - threshold else threshold)))))"

text \<open>The branch that evaluates the comparison on the unconnected alpha socket.\<close>

definition blend_mode_static ::
    "bNodeTree \<Rightarrow> AlphaSource \<Rightarrow> sock_ref \<Rightarrow> real \<Rightarrow> crash + bNodeTree" where
  "blend_mode_static ntree alpha s threshold =
     (case socket_at ntree s of
        None \<Rightarrow> Inl InvalidPointer
      | Some sock \<Rightarrow>
          (if sock_type sock = SOCK_RGBA
           then
             (case version_cycles_node_socket_rgba_value ntree (Some s) of
                Inl e \<Rightarrow> Inl e
              | Inr (r, g, b, a) \<Rightarrow>
                  (let sum = r + g + b;
                       avg = (if sum \<ge> 3 then 1 else sum / 3);
                       v = (if (if is_transparency alpha then avg > 1 - threshold
                                else avg > threshold) then 1 else 0)
                   in write_rgba_value ntree (Some s) (v, v, v, 1)))
           else
             (case version_cycles_node_socket_float_value ntree (Some s) of
                Inl e \<Rightarrow> Inl e
              | Inr d \<Rightarrow>
                  write_float_value ntree (Some s)
                    (if (if is_transparency alpha then d > 1 - threshold
                         else d > threshold) then 1 else 0))))"

text \<open>
  \<^verbatim>\<open>versioning_eevee_material_blend_mode_settings(ntree, threshold)\<close>: the returned flag
  together with the tree after the call.
\<close>

definition versioning_eevee_material_blend_mode_settings ::
    "bke \<Rightarrow> bNodeTree \<Rightarrow> real \<Rightarrow> crash + bool \<times> bNodeTree" where
  "versioning_eevee_material_blend_mode_settings K ntree threshold =
     (case version_eevee_output_node_get K ntree SH_NODE_OUTPUT_MATERIAL of
        None \<Rightarrow> Inr (True, ntree)
      | Some out_id \<Rightarrow>
          (case node_at ntree out_id of
             None \<Rightarrow> Inl InvalidPointer
           | Some output_node \<Rightarrow>
               (case versioning_eevee_alpha_source_get K ntree
                       (find_socket K out_id output_node SOCK_IN ''Surface'') 0 of
                  Inl e \<Rightarrow> Inl e
                | Inr alpha \<Rightarrow>
                    (if is_complex alpha then Inr (False, ntree)
                     else
                       (case socket alpha of
                          None \<Rightarrow> Inr (True, ntree)
                        | Some s \<Rightarrow>
                            (if threshold = 2
                             then map_sum id (Pair True) (blend_mode_force_opaque ntree alpha s)
                             else
                               (case ptr_link ntree (Some s) of
                                  Inl e \<Rightarrow> Inl e
                                | Inr (Some l) \<Rightarrow>
                                    map_sum id (Pair True)
                                      (blend_mode_insert_math K ntree alpha l threshold)
                                | Inr None \<Rightarrow>
                                    map_sum id (Pair True)
                                      (blend_mode_static ntree alpha s threshold))))))))"

section \<open>Blend mode conversion of the materials of a file\<close>

datatype blend_method = MA_BM_CLIP | MA_BM_HASHED | MA_BM_BLEND | MA_BM_OTHER int

datatype blend_shadow = MA_BS_NONE | MA_BS_SOLID | MA_BS_CLIP | MA_BS_HASHED | MA_BS_OTHER int

record Material =
  id_name :: string
  use_nodes :: bool
  nodetree :: "bNodeTree option"
  blend_method :: blend_method
  blend_shadow :: blend_shadow
  alpha_threshold :: real

text \<open>
  A report entry: its level, which of the two messages of the conversion it is, and the
  material name that fills the message's placeholder (\<^verbatim>\<open>material->id.name + 2\<close>).
\<close>

datatype report_type = RPT_WARNING

datatype report_message = DIFFERENT_BLEND_AND_SHADOW_MODE | NON_TRIVIAL_ALPHA_BLENDING

datatype report = Report report_type report_message string

text \<open>
  The body of the loop over \<^verbatim>\<open>bmain->materials\<close> in \<^verbatim>\<open>do_versions_after_linking_400\<close>,
  for one material: the material after the step and the reports it adds.
\<close>

definition convert_blend_method_material ::
    "bke \<Rightarrow> Material \<Rightarrow> crash + Material \<times> report list" where
  "convert_blend_method_material K material =
     (case nodetree material of
        None \<Rightarrow> Inr (material, [])
      | Some ntree \<Rightarrow>
          (if \<not> use_nodes material then Inr (material, [])
           else if blend_method material = MA_BM_HASHED \<or> blend_method material = MA_BM_BLEND
           then Inr (material, [])
           else if blend_shadow material \<noteq> MA_BS_NONE \<and> blend_shadow material \<noteq> MA_BS_SOLID \<and>
                   ((blend_shadow material = MA_BS_CLIP \<and> blend_method material \<noteq> MA_BM_CLIP) \<or>
                    blend_shadow material = MA_BS_HASHED)
           then Inr (material,
                     [Report RPT_WARNING DIFFERENT_BLEND_AND_SHADOW_MODE (drop 2 (id_name material))])
           else
             (let threshold = (if blend_method material = MA_BM_CLIP
                               then alpha_threshold material else 2)
              in case versioning_eevee_material_blend_mode_settings K ntree threshold of
                   Inl e \<Rightarrow> Inl e
                 | Inr (ok, ntree') \<Rightarrow>
                     Inr (material\<lparr>nodetree := Some ntree'\<rparr>,
                          if \<not> ok
                          then [Report RPT_WARNING NON_TRIVIAL_ALPHA_BLENDING
                                  (drop 2 (id_name material))]
                          else []))))"

text \<open>The loop: materials are converted in list order, the reports accumulate.\<close>

fun convert_blend_method_materials ::
    "bke \<Rightarrow> Material list \<Rightarrow> crash + Material list \<times> report list" where
  "convert_blend_method_materials K [] = Inr ([], [])"
| "convert_blend_method_materials K (material # rest) =
     (case convert_blend_method_material K material of
        Inl e \<Rightarrow> Inl e
      | Inr (material', reports) \<Rightarrow>
          (case convert_blend_method_materials K rest of
             Inl e \<Rightarrow> Inl e
           | Inr (rest', reports') \<Rightarrow> Inr (material' # rest', reports @ reports')))"

section \<open>Version gate\<close>

record Scene =
  engine :: string

record Main =
  versionfile :: int
  subversionfile :: int
  scenes :: "Scene list"
  materials :: "Material list"
  nodetrees :: "bNodeTree list"

text \<open>
  Modelled from the spec: the macro \<^verbatim>\<open>MAIN_VERSION_FILE_ATLEAST\<close> is defined outside the
  translated file. The stored tag is an "ordered pair (major, minor)" and the gate "exposes
  \<open>at_least(major, minor)\<close>": the stored tag is at or above the given one, the major
  number compared first.
\<close>

definition MAIN_VERSION_FILE_ATLEAST :: "Main \<Rightarrow> int \<Rightarrow> int \<Rightarrow> bool" where
  "MAIN_VERSION_FILE_ATLEAST bmain ver subver =
     (versionfile bmain > ver \<or> (versionfile bmain = ver \<and> subversionfile bmain \<ge> subver))"






text \<open>The block of \<^verbatim>\<open>do_versions_after_linking_400\<close> that converts the blend method.\<close>

definition convert_blend_method_block :: "bke \<Rightarrow> Main \<Rightarrow> crash + Main \<times> report list" where
  "convert_blend_method_block K bmain =
     (if \<not> MAIN_VERSION_FILE_ATLEAST bmain 402 51 then
        (case scenes bmain of
           [] \<Rightarrow> Inr (bmain, [])
         | scene # _ \<Rightarrow>
             (if engine scene = RE_engine_id_BLENDER_EEVEE K then
                (case convert_blend_method_materials K (materials bmain) of
                   Inl e \<Rightarrow> Inl e
                 | Inr (materials', reports) \<Rightarrow> Inr (bmain\<lparr>materials := materials'\<rparr>, reports))
              else Inr (bmain, [])))
      else Inr (bmain, []))"

section \<open>Conversion of the legacy socket lists\<close>

definition subtypes_map :: "(string \<times> string) list" where
  "subtypes_map =
     [(''NodeSocketFloatUnsigned'', ''NodeSocketFloat''),
      (''NodeSocketFloatPercentage'', ''NodeSocketFloat''),
      (''NodeSocketFloatFactor'', ''NodeSocketFloat''),
      (''NodeSocketFloatAngle'', ''NodeSocketFloat''),
      (''NodeSocketFloatTime'', ''NodeSocketFloat''),
      (''NodeSocketFloatTimeAbsolute'', ''NodeSocketFloat''),
      (''NodeSocketFloatDistance'', ''NodeSocketFloat''),
      (''NodeSocketIntUnsigned'', ''NodeSocketInt''),
      (''NodeSocketIntPercentage'', ''NodeSocketInt''),
      (''NodeSocketIntFactor'', ''NodeSocketInt''),
      (''NodeSocketVectorTranslation'', ''NodeSocketVector''),
      (''NodeSocketVectorDirection'', ''NodeSocketVector''),
      (''NodeSocketVectorVelocity'', ''NodeSocketVector''),
      (''NodeSocketVectorAcceleration'', ''NodeSocketVector''),
      (''NodeSocketVectorEuler'', ''NodeSocketVector''),
      (''NodeSocketVectorXYZ'', ''NodeSocketVector'')]"

definition legacy_socket_idname_to_socket_type :: "string \<Rightarrow> string" where
  "legacy_socket_idname_to_socket_type idn =
     (case map_of subtypes_map idn of Some base \<Rightarrow> base | None \<Rightarrow> idn)"

text \<open>
  Modelled from the spec: the macro \<^verbatim>\<open>SET_FLAG_FROM_TEST(value, test, flag)\<close> is defined
  outside the translated file; the "hidden/disabled flags" are copied "verbatim", so the flag
  is set when the test holds and cleared when it does not.
\<close>

definition SET_FLAG_FROM_TEST :: "'a set \<Rightarrow> bool \<Rightarrow> 'a \<Rightarrow> 'a set" where
  "SET_FLAG_FROM_TEST v test f = (if test then insert f v else v - {f})"

definition legacy_socket_move_to_interface ::
    "bNodeSocket_legacy \<Rightarrow> eNodeSocketInOut \<Rightarrow> bNodeTreeInterfaceItem \<times> bNodeSocket_legacy" where
  "legacy_socket_move_to_interface legacy_socket in_out =
     (let flag0 = (if in_out = SOCK_IN then {NODE_INTERFACE_SOCKET_INPUT}
                   else {NODE_INTERFACE_SOCKET_OUTPUT});
          flag1 = SET_FLAG_FROM_TEST flag0 (SOCK_HIDE_VALUE \<in> legacy_flag legacy_socket)
                    NODE_INTERFACE_SOCKET_HIDE_VALUE;
          flag2 = SET_FLAG_FROM_TEST flag1 (SOCK_HIDE_IN_MODIFIER \<in> legacy_flag legacy_socket)
                    NODE_INTERFACE_SOCKET_HIDE_IN_MODIFIER;
          new_socket =
            \<lparr>name = legacy_name legacy_socket,
             description = legacy_description legacy_socket,
             socket_type = legacy_socket_idname_to_socket_type (idname legacy_socket),
             socket_flag = flag2,
             attribute_domain = legacy_attribute_domain legacy_socket,
             default_attribute_name = legacy_default_attribute_name legacy_socket,
             socket_identifier = legacy_identifier legacy_socket,
             socket_data = legacy_default_value legacy_socket,
             properties = legacy_prop legacy_socket\<rparr>
      in (Socket_item new_socket,
          legacy_socket\<lparr>legacy_default_attribute_name := None,
                         legacy_default_value := None,
                         legacy_prop := None,
                         runtime := None\<rparr>))"

text \<open>
  Modelled from the spec: the macro \<^verbatim>\<open>LISTBASE_FOREACH_INDEX\<close> is defined outside the
  translated file; it walks a list "in original order" and counts the elements from 0 in
  \<open>index\<close>. The body of each loop of the conversion stores the item made from the socket in
  slot \<open>offset + index\<close> of the new array. A slot that was never written is \<open>None\<close>.
\<close>

fun move_sockets_loop ::
    "bNodeSocket_legacy list \<Rightarrow> eNodeSocketInOut \<Rightarrow> nat \<Rightarrow> nat \<Rightarrow>
     bNodeTreeInterfaceItem option list \<Rightarrow>
     bNodeTreeInterfaceItem option list \<times> bNodeSocket_legacy list" where
  "move_sockets_loop [] in_out offset index arr = (arr, [])"
| "move_sockets_loop (sock # rest) in_out offset index arr =
     (let (item, sock') = legacy_socket_move_to_interface sock in_out;
          (arr', rest') = move_sockets_loop rest in_out offset (index + 1)
                            (arr[offset + index := Some item])
      in (arr', sock' # rest'))"

definition versioning_convert_node_tree_socket_lists_to_interface ::
    "bNodeTree \<Rightarrow> crash + bNodeTree" where
  "versioning_convert_node_tree_socket_lists_to_interface ntree =
     (let num_inputs = length (inputs_legacy ntree);
          num_outputs = length (outputs_legacy ntree);
          arr0 = replicate (num_inputs + num_outputs) None;
          (arr1, outputs') = move_sockets_loop (outputs_legacy ntree) SOCK_OUT 0 0 arr0;
          (arr2, inputs') = move_sockets_loop (inputs_legacy ntree) SOCK_IN num_outputs 0 arr1
      in case those arr2 of
           None \<Rightarrow> Inl Uninitialized
         | Some items \<Rightarrow>
             Inr (ntree\<lparr>inputs_legacy := inputs', outputs_legacy := outputs',
                    tree_interface := (tree_interface ntree)\<lparr>root_panel :=
                      Panel (panel_name (root_panel (tree_interface ntree)))
                        (panel_flag (root_panel (tree_interface ntree))) items\<rparr>\<rparr>))"


section \<open>Splitting a socket that is both input and output\<close>

text \<open>
  The conversion \<^verbatim>\<open>"%d"\<close> of \<^verbatim>\<open>BLI_sprintfN\<close>: the decimal digits of the number, after a
  minus sign when it is negative.
\<close>

definition decimal_digit :: "nat \<Rightarrow> char" where
  "decimal_digit d = ''0123456789'' ! d"

function decimal_digits :: "nat \<Rightarrow> string" where
  "decimal_digits n =
     (if 10 \<le> n then decimal_digits (n div 10) @ [decimal_digit (n mod 10)]
      else [decimal_digit n])"
  by pat_completeness auto
termination
  by (relation "measure id") auto

definition sprintf_d :: "int \<Rightarrow> string" where
  "sprintf_d v =
     (if 0 \<le> v then decimal_digits (nat v) else CHR ''-'' # decimal_digits (nat (- v)))"

definition version_copy_socket ::
    "bNodeTreeInterfaceSocket \<Rightarrow> bNodeTreeInterfaceSocket \<Rightarrow> string \<Rightarrow> bNodeTreeInterfaceSocket" where
  "version_copy_socket dst src ident =
     dst\<lparr>name := name src,
         description := description src,
         socket_type := socket_type src,
         default_attribute_name := default_attribute_name src,
         socket_identifier := ident,
         properties := (if properties src \<noteq> None then properties src else properties dst),
         socket_data := (if socket_data src \<noteq> None then socket_data src else socket_data dst)\<rparr>"

function socket_position_loop ::
    "bNodeTreeInterfaceItem list \<Rightarrow> int \<Rightarrow> nat \<Rightarrow> int \<Rightarrow> int" where
  "socket_position_loop items initial_pos test_pos pos =
     (if int test_pos \<le> initial_pos then
        (if test_pos \<ge> length items then pos
         else if item_type (items ! test_pos) = NODE_INTERFACE_PANEL then int test_pos
         else socket_position_loop items initial_pos (test_pos + 1) pos)
      else pos)"
  by pat_completeness auto
termination
  by (relation "measure (\<lambda>(items, initial_pos, test_pos, pos). nat (initial_pos + 1 - int test_pos))")
     auto

function panel_position_loop ::
    "bNodeTreeInterfaceItem list \<Rightarrow> int \<Rightarrow> int \<Rightarrow> int \<Rightarrow> int" where
  "panel_position_loop items initial_pos test_pos pos =
     (if test_pos \<ge> initial_pos then
        (if test_pos < 0 then pos
         else if item_type (items ! nat test_pos) \<noteq> NODE_INTERFACE_PANEL then test_pos + 1
         else panel_position_loop items initial_pos (test_pos - 1) pos)
      else pos)"
  by pat_completeness auto
termination
  by (relation "measure (\<lambda>(items, initial_pos, test_pos, pos). nat (test_pos + 1))") auto

definition version_nodes_find_valid_insert_position_for_item ::
    "bNodeTreeInterfacePanel \<Rightarrow> bNodeTreeInterfaceItem \<Rightarrow> int \<Rightarrow> int" where
  "version_nodes_find_valid_insert_position_for_item panel item initial_pos =
     (let sockets_above_panels =
            (NODE_INTERFACE_PANEL_ALLOW_SOCKETS_AFTER_PANELS \<notin> panel_flag panel);
          items = items_array panel
      in if sockets_above_panels then
           (if item_type item = NODE_INTERFACE_PANEL
            then panel_position_loop items initial_pos (int (length items) - 1) initial_pos
            else socket_position_loop items initial_pos 0 initial_pos)
         else initial_pos)"

text \<open>
  \<^verbatim>\<open>version_nodes_insert_item\<close>: the panel after the insertion, and the index at which the
  new item sits (the source keeps pointers to the items, the model their indices).
\<close>

definition version_nodes_insert_item ::
    "bNodeTreeInterfacePanel \<Rightarrow> bNodeTreeInterfaceSocket \<Rightarrow> int \<Rightarrow>
     bNodeTreeInterfacePanel \<times> nat" where
  "version_nodes_insert_item parent_panel sock position =
     (let position1 = version_nodes_find_valid_insert_position_for_item parent_panel
                        (Socket_item sock) position;
          position2 = min (max position1 0) (int (length (items_array parent_panel)));
          old_items = items_array parent_panel
      in (Panel (panel_name parent_panel) (panel_flag parent_panel)
            (take (nat position2) old_items @ [Socket_item sock] @ drop (nat position2) old_items),
          nat position2))"

text \<open>
  A pointer to a panel of the interface is the path of child indices that leads to it from
  the root panel.
\<close>

fun panel_child :: "bNodeTreeInterfacePanel \<Rightarrow> nat \<Rightarrow> bNodeTreeInterfacePanel option" where
  "panel_child (Panel n fl its) i =
     (if i < length its
      then (case its ! i of Panel_item q \<Rightarrow> Some q | Socket_item _ \<Rightarrow> None)
      else None)"

fun panel_at :: "bNodeTreeInterfacePanel \<Rightarrow> nat list \<Rightarrow> bNodeTreeInterfacePanel option" where
  "panel_at p [] = Some p"
| "panel_at p (i # path) =
     (case panel_child p i of None \<Rightarrow> None | Some q \<Rightarrow> panel_at q path)"

fun panel_put ::
    "bNodeTreeInterfacePanel \<Rightarrow> nat list \<Rightarrow> bNodeTreeInterfacePanel \<Rightarrow> bNodeTreeInterfacePanel" where
  "panel_put p [] new = new"
| "panel_put p (i # path) new =
     (case panel_child p i of
        None \<Rightarrow> p
      | Some q \<Rightarrow>
          Panel (panel_name p) (panel_flag p)
            ((items_array p)[i := Panel_item (panel_put q path new)]))"

text \<open>
  \<^verbatim>\<open>version_node_group_split_socket(tree_interface, socket, parent, position)\<close>. The socket
  is given by its index in the item array of the panel that \<^verbatim>\<open>parent\<close> points to (the
  caller passes the socket's own parent); a null \<^verbatim>\<open>parent\<close> stands for the root panel.
  \<^verbatim>\<open>tree_interface.next_uid++\<close> prints the signed value of the counter and then increments
  the 32-bit word.
\<close>

definition version_node_group_split_socket ::
    "bNodeTreeInterface \<Rightarrow> nat \<Rightarrow> nat list option \<Rightarrow> int \<Rightarrow> crash + bNodeTreeInterface" where
  "version_node_group_split_socket tree_iface socket_index parent_ptr position =
     (let path = (case parent_ptr of None \<Rightarrow> [] | Some p \<Rightarrow> p)
      in case panel_at (root_panel tree_iface) path of
           None \<Rightarrow> Inl InvalidPointer
         | Some par \<Rightarrow>
             (if socket_index \<ge> length (items_array par) then Inl InvalidPointer
              else
                (case items_array par ! socket_index of
                   Panel_item _ \<Rightarrow> Inl BadCast
                 | Socket_item sock \<Rightarrow>
                     (let dst_identifier = ''Socket_'' @ sprintf_d (sint (next_uid tree_iface));
                          csocket = version_copy_socket sock sock dst_identifier;
                          (par1, pos) = version_nodes_insert_item par csocket position;
                          orig_index = (if pos \<le> socket_index then socket_index + 1
                                        else socket_index);
                          items2 = (items_array par1)[orig_index := Socket_item
                            (sock\<lparr>socket_flag := socket_flag sock - {NODE_INTERFACE_SOCKET_INPUT}\<rparr>)];
                          items3 = items2[pos := Socket_item
                            (csocket\<lparr>socket_flag :=
                               socket_flag csocket - {NODE_INTERFACE_SOCKET_OUTPUT}\<rparr>)]
                      in Inr (tree_iface
                           \<lparr>root_panel := panel_put (root_panel tree_iface) path
                              (Panel (panel_name par1) (panel_flag par1) items3),
                            next_uid := next_uid tree_iface + 1\<rparr>)))))"

section \<open>Sorting the interface items\<close>

text \<open>
  The comparator of \<^verbatim>\<open>versioning_node_group_sort_sockets_recursive\<close>: true if item \<open>a\<close>
  should be above item \<open>b\<close>.
\<close>

definition item_compare :: "bNodeTreeInterfaceItem \<Rightarrow> bNodeTreeInterfaceItem \<Rightarrow> bool" where
  "item_compare a b =
     (if item_type a \<noteq> item_type b then item_type a = NODE_INTERFACE_SOCKET
      else
        (case (a, b) of
           (Socket_item sa, Socket_item sb) \<Rightarrow>
             (let is_output_a = (NODE_INTERFACE_SOCKET_OUTPUT \<in> socket_flag sa);
                  is_output_b = (NODE_INTERFACE_SOCKET_OUTPUT \<in> socket_flag sb)
              in if is_output_a \<noteq> is_output_b then is_output_a else False)
         | _ \<Rightarrow> False))"

text \<open>
  \<^verbatim>\<open>std::stable_sort\<close> with a comparator: the elements end up in the order of the
  comparator, elements that it does not order keep their relative order. It is modelled as
  an insertion sort in which an element moves only past the elements that the comparator
  puts above it.
\<close>

fun stable_insert :: "('a \<Rightarrow> 'a \<Rightarrow> bool) \<Rightarrow> 'a \<Rightarrow> 'a list \<Rightarrow> 'a list" where
  "stable_insert cmp x [] = [x]"
| "stable_insert cmp x (y # ys) =
     (if cmp y x then y # stable_insert cmp x ys else x # y # ys)"

fun stable_sort :: "('a \<Rightarrow> 'a \<Rightarrow> bool) \<Rightarrow> 'a list \<Rightarrow> 'a list" where
  "stable_sort cmp [] = []"
| "stable_sort cmp (x # xs) = stable_insert cmp x (stable_sort cmp xs)"

function versioning_node_group_sort_sockets_recursive ::
    "bNodeTreeInterfacePanel \<Rightarrow> bNodeTreeInterfacePanel" where
  "versioning_node_group_sort_sockets_recursive (Panel n fl its) =
     Panel n fl
       (map (\<lambda>item. case item of
                 Panel_item p \<Rightarrow> Panel_item (versioning_node_group_sort_sockets_recursive p)
               | Socket_item s \<Rightarrow> Socket_item s)
          (stable_sort item_compare its))"
  by pat_completeness auto
termination
proof (relation "measure size")
  show "wf (measure size)" by simp
next
  fix n fl its and x :: bNodeTreeInterfaceItem and x2
  assume mem: "x \<in> set (stable_sort item_compare its)" and x: "x = Panel_item x2"
  have ins: "set (stable_insert cmp y ys) = insert y (set ys)" for cmp and y :: bNodeTreeInterfaceItem and ys
    by (induction ys) auto
  have "set (stable_sort cmp ys) = set ys" for cmp and ys :: "bNodeTreeInterfaceItem list"
    by (induction ys) (auto simp: ins)
  with mem have "x \<in> set its" by simp
  then have "size x \<le> size_list size its" by (simp add: size_list_estimation')
  with x show "(x2, Panel n fl its) \<in> measure size" by simp
qed



text \<open>The block of \<^verbatim>\<open>blo_do_versions_400\<close> that sorts the interface of each node group.\<close>

definition sort_sockets_block :: "Main \<Rightarrow> Main" where
  "sort_sockets_block bmain =
     (if \<not> MAIN_VERSION_FILE_ATLEAST bmain 400 33 then
        bmain\<lparr>nodetrees :=
          map (\<lambda>ntree. ntree\<lparr>tree_interface := (tree_interface ntree)\<lparr>root_panel :=
                 versioning_node_group_sort_sockets_recursive
                   (root_panel (tree_interface ntree))\<rparr>\<rparr>)
            (nodetrees bmain)\<rparr>
      else bmain)"

section \<open>Notions used to state the properties\<close>


text \<open>
  The place of an item in the order of the comparator: output sockets, then input sockets,
  then panels. \<open>sort_child\<close> is what the recursion does to one item, and a panel is sorted
  when its items are in that order and each nested panel is sorted.
\<close>

fun item_rank :: "bNodeTreeInterfaceItem \<Rightarrow> nat" where
  "item_rank (Socket_item s) = (if NODE_INTERFACE_SOCKET_OUTPUT \<in> socket_flag s then 0 else 1)"
| "item_rank (Panel_item _) = 2"

fun sort_child :: "bNodeTreeInterfaceItem \<Rightarrow> bNodeTreeInterfaceItem" where
  "sort_child (Panel_item p) = Panel_item (versioning_node_group_sort_sockets_recursive p)"
| "sort_child (Socket_item s) = Socket_item s"

function panel_sorted :: "bNodeTreeInterfacePanel \<Rightarrow> bool" where
  "panel_sorted (Panel n fl its) =
     (sorted (map item_rank its) \<and>
      (\<forall>item \<in> set its. case item of Panel_item p \<Rightarrow> panel_sorted p | Socket_item _ \<Rightarrow> True))"
  by pat_completeness auto
termination
proof (relation "measure size")
  show "wf (measure size)" by simp
next
  fix n fl its and x :: bNodeTreeInterfaceItem and x2
  assume "x \<in> set its" and x: "x = Panel_item x2"
  then have "size x \<le> size_list size its" by (simp add: size_list_estimation')
  with x show "(x2, Panel n fl its) \<in> measure size" by simp
qed

text \<open>
  The invariants of the data model that the rewriting relies on: the nodes named by a link
  exist, and a socket is the target of at most one link.
\<close>

definition graph_valid :: "bNodeTree \<Rightarrow> bool" where
  "graph_valid t =
     ((\<forall>l \<in> set (links t).
         fromnode l < length (nodes t) \<and> tonode l < length (nodes t) \<and>
         ref_node (tosock l) < length (nodes t)) \<and>
      distinct (map tosock (links t)))"



text \<open>
  The shader nodes that feed a link have the sockets the analysis dereferences: a reroute
  has an input, a mix shader three inputs and a scalar factor, an add shader two inputs, and
  the transparent, principled and specular BSDF have the input the analysis reads, found by
  the lookup and carrying a value of the kind that is read.
\<close>

definition float_input_ok :: "bke \<Rightarrow> bNode \<Rightarrow> string \<Rightarrow> bool" where
  "float_input_ok K node ident =
     (case nodeFindSocket K node SOCK_IN ident of
        None \<Rightarrow> False
      | Some i \<Rightarrow>
          i < length (inputs node) \<and>
          (case default_value (inputs node ! i) of FloatValue _ \<Rightarrow> True | _ \<Rightarrow> False))"

definition rgba_input_ok :: "bke \<Rightarrow> bNode \<Rightarrow> string \<Rightarrow> bool" where
  "rgba_input_ok K node ident =
     (case nodeFindSocket K node SOCK_IN ident of
        None \<Rightarrow> False
      | Some i \<Rightarrow>
          i < length (inputs node) \<and>
          (case default_value (inputs node ! i) of RGBAValue _ _ _ _ \<Rightarrow> True | _ \<Rightarrow> False))"

definition node_sockets_ok :: "bke \<Rightarrow> bNode \<Rightarrow> bool" where
  "node_sockets_ok K node =
     (case node_type node of
        NODE_REROUTE \<Rightarrow> 1 \<le> length (inputs node)
      | SH_NODE_BSDF_TRANSPARENT \<Rightarrow> rgba_input_ok K node ''Color''
      | SH_NODE_MIX_SHADER \<Rightarrow> 3 \<le> length (inputs node) \<and> float_input_ok K node ''Fac''
      | SH_NODE_ADD_SHADER \<Rightarrow> 2 \<le> length (inputs node)
      | SH_NODE_BSDF_PRINCIPLED \<Rightarrow> float_input_ok K node ''Alpha''
      | SH_NODE_EEVEE_SPECULAR \<Rightarrow> float_input_ok K node ''Transparency''
      | _ \<Rightarrow> True)"

definition shader_nodes_ok :: "bke \<Rightarrow> bNodeTree \<Rightarrow> bool" where
  "shader_nodes_ok K t =
     (\<forall>l \<in> set (links t).
        fromnode l < length (nodes t) \<and> node_sockets_ok K (nodes t ! fromnode l))"

section \<open>Example inputs\<close>

text \<open>
  Concrete inputs on which the properties below are exercised. \<open>ex_bke\<close> looks a socket up
  by its identifier, takes the first node of the requested type as output node, and creates
  a math node with three scalar inputs and one output.
\<close>

fun ex_find_index :: "('a \<Rightarrow> bool) \<Rightarrow> 'a list \<Rightarrow> nat option" where
  "ex_find_index P [] = None"
| "ex_find_index P (x # xs) = (if P x then Some 0 else map_option Suc (ex_find_index P xs))"

definition ex_socket :: "string \<Rightarrow> eNodeSocketDatatype \<Rightarrow> sock_value \<Rightarrow> bNodeSocket" where
  "ex_socket ident ty v = \<lparr>sock_identifier = ident, sock_type = ty, default_value = v\<rparr>"

definition ex_node :: "node_type \<Rightarrow> bNodeSocket list \<Rightarrow> bNodeSocket list \<Rightarrow> real \<Rightarrow> bNode" where
  "ex_node ty ins outs x =
     \<lparr>node_type = ty, inputs = ins, outputs = outs, custom1 = 0, flag = {}, parent = None,
      locx = x, locy = 0, width = 140\<rparr>"

definition ex_bke :: bke where
  "ex_bke =
     \<lparr>nodeFindSocket = (\<lambda>node io ident.
        ex_find_index (\<lambda>s. sock_identifier s = ident) (side_sockets node io)),
      version_eevee_output_node_get = (\<lambda>t ty. ex_find_index (\<lambda>n. node_type n = ty) (nodes t)),
      node_type_new = (\<lambda>type_idname.
        ex_node (NODE_OTHER_TYPE 0)
          [ex_socket ''Value'' SOCK_FLOAT (FloatValue (1/2)),
           ex_socket ''Value_001'' SOCK_FLOAT (FloatValue 0),
           ex_socket ''Value_002'' SOCK_FLOAT (FloatValue (1/2))]
          [ex_socket ''Value'' SOCK_FLOAT (FloatValue 0)] 0),
      NODE_MATH_GREATER_THAN = 16,
      RE_engine_id_BLENDER_EEVEE = ''BLENDER_EEVEE''\<rparr>"

definition ex_interface :: bNodeTreeInterface where
  "ex_interface = \<lparr>root_panel = Panel [] {} [], next_uid = 0\<rparr>"

definition ex_tree :: "bNode list \<Rightarrow> bNodeLink list \<Rightarrow> bNodeTree" where
  "ex_tree ns ls =
     \<lparr>nodes = ns, links = ls, inputs_legacy = [], outputs_legacy = [],
      tree_interface = ex_interface\<rparr>"

definition ex_link :: "nat \<Rightarrow> nat \<Rightarrow> nat \<Rightarrow> nat \<Rightarrow> bNodeLink" where
  "ex_link fn fi tn ti =
     \<lparr>fromnode = fn, fromsock = SockRef fn SOCK_OUT fi, tonode = tn, tosock = SockRef tn SOCK_IN ti\<rparr>"

definition ex_output_node :: bNode where
  "ex_output_node =
     ex_node SH_NODE_OUTPUT_MATERIAL
       [ex_socket ''Surface'' (SOCK_OTHER_DATATYPE 0) NoValue] [] 300"

text \<open>An output node whose surface socket is not connected.\<close>

definition ex_unconnected :: bNodeTree where
  "ex_unconnected = ex_tree [ex_output_node] []"

text \<open>A node group feeds the surface socket.\<close>

definition ex_group_surface :: bNodeTree where
  "ex_group_surface =
     ex_tree
       [ex_output_node,
        ex_node NODE_GROUP [] [ex_socket ''Shader'' (SOCK_OTHER_DATATYPE 0) NoValue] 0]
       [ex_link 1 0 0 0]"

text \<open>A reroute node whose input is fed by its own output, feeding the surface socket.\<close>

definition ex_reroute_cycle :: bNodeTree where
  "ex_reroute_cycle =
     ex_tree
       [ex_output_node,
        ex_node NODE_REROUTE [ex_socket ''Input'' (SOCK_OTHER_DATATYPE 0) NoValue]
          [ex_socket ''Output'' (SOCK_OTHER_DATATYPE 0) NoValue] 0]
       [ex_link 1 0 0 0, ex_link 1 0 1 0]"

text \<open>
  A principled BSDF feeds the surface socket; its alpha input is driven by the output of a
  texture node.
\<close>

definition ex_principled_node :: bNode where
  "ex_principled_node =
     ex_node SH_NODE_BSDF_PRINCIPLED
       [ex_socket ''Base Color'' SOCK_RGBA (RGBAValue (4/5) (4/5) (4/5) 1),
        ex_socket ''Alpha'' SOCK_FLOAT (FloatValue 1)]
       [ex_socket ''BSDF'' (SOCK_OTHER_DATATYPE 0) NoValue] 100"

definition ex_texture_node :: bNode where
  "ex_texture_node =
     ex_node (NODE_OTHER_TYPE 1) []
       [ex_socket ''Color'' SOCK_RGBA (RGBAValue 0 0 0 1),
        ex_socket ''Alpha'' SOCK_FLOAT (FloatValue 0)] 0"

definition ex_textured_alpha :: bNodeTree where
  "ex_textured_alpha =
     ex_tree [ex_output_node, ex_principled_node, ex_texture_node]
       [ex_link 1 0 0 0, ex_link 2 1 1 1]"

definition ex_material :: "string \<Rightarrow> bNodeTree \<Rightarrow> Material" where
  "ex_material n t =
     \<lparr>id_name = ''MA'' @ n, use_nodes = True, nodetree = Some t, blend_method = MA_BM_CLIP,
      blend_shadow = MA_BS_NONE, alpha_threshold = 1/2\<rparr>"


text \<open>Legacy sockets \<open>A\<close> and \<open>B\<close>, and a tree with outputs \<open>[B]\<close> and inputs \<open>[A]\<close>.\<close>

definition ex_legacy :: "string \<Rightarrow> string \<Rightarrow> legacy_socket_flag set \<Rightarrow> bNodeSocket_legacy" where
  "ex_legacy n idn fl =
     \<lparr>legacy_name = n, legacy_identifier = ''Id_'' @ n, legacy_description = ''about '' @ n,
      idname = idn, legacy_flag = fl, legacy_attribute_domain = 1,
      legacy_default_attribute_name = None, legacy_default_value = Some (FloatValue (1/4)),
      legacy_prop = None, runtime = Some ()\<rparr>"

definition ex_legacy_tree :: bNodeTree where
  "ex_legacy_tree =
     \<lparr>nodes = [], links = [],
      inputs_legacy = [ex_legacy ''A'' ''NodeSocketFloatFactor'' {SOCK_HIDE_VALUE}],
      outputs_legacy = [ex_legacy ''B'' ''NodeSocketFloat'' {}],
      tree_interface = ex_interface\<rparr>"

text \<open>
  Interface sockets with the given flags, and two interfaces: in the first the socket that
  is both input and output comes after plain sockets only, in the second after a panel.
\<close>

definition ex_isocket :: "string \<Rightarrow> interface_socket_flag set \<Rightarrow> bNodeTreeInterfaceSocket" where
  "ex_isocket n fl =
     \<lparr>name = n, description = [], socket_type = ''NodeSocketFloat'', socket_flag = fl,
      attribute_domain = 0, default_attribute_name = None, socket_identifier = ''Input_'' @ n,
      socket_data = Some (FloatValue 0), properties = None\<rparr>"

definition ex_dual_after_socket :: bNodeTreeInterface where
  "ex_dual_after_socket =
     \<lparr>root_panel = Panel [] {}
        [Socket_item (ex_isocket ''X'' {NODE_INTERFACE_SOCKET_INPUT}),
         Socket_item (ex_isocket ''D'' {NODE_INTERFACE_SOCKET_INPUT, NODE_INTERFACE_SOCKET_OUTPUT}),
         Panel_item (Panel ''P'' {} [])],
      next_uid = 7\<rparr>"



text \<open>A panel in arbitrary order with a nested panel, and the same panel sorted.\<close>

definition ex_unsorted_panel :: bNodeTreeInterfacePanel where
  "ex_unsorted_panel =
     Panel [] {}
       [Socket_item (ex_isocket ''I1'' {NODE_INTERFACE_SOCKET_INPUT}),
        Panel_item (Panel ''P'' {}
          [Socket_item (ex_isocket ''I3'' {NODE_INTERFACE_SOCKET_INPUT}),
           Socket_item (ex_isocket ''O3'' {NODE_INTERFACE_SOCKET_OUTPUT})]),
        Socket_item (ex_isocket ''O1'' {NODE_INTERFACE_SOCKET_OUTPUT}),
        Socket_item (ex_isocket ''I2'' {NODE_INTERFACE_SOCKET_INPUT}),
        Socket_item (ex_isocket ''O2'' {NODE_INTERFACE_SOCKET_OUTPUT})]"

definition ex_sorted_panel :: bNodeTreeInterfacePanel where
  "ex_sorted_panel =
     Panel [] {}
       [Socket_item (ex_isocket ''O1'' {NODE_INTERFACE_SOCKET_OUTPUT}),
        Socket_item (ex_isocket ''O2'' {NODE_INTERFACE_SOCKET_OUTPUT}),
        Socket_item (ex_isocket ''I1'' {NODE_INTERFACE_SOCKET_INPUT}),
        Socket_item (ex_isocket ''I2'' {NODE_INTERFACE_SOCKET_INPUT}),
        Panel_item (Panel ''P'' {}
          [Socket_item (ex_isocket ''O3'' {NODE_INTERFACE_SOCKET_OUTPUT}),
           Socket_item (ex_isocket ''I3'' {NODE_INTERFACE_SOCKET_INPUT})])]"

section \<open>Properties of the composition rules\<close>

lemmas alpha_ctor_defs = alpha_source_def opaque_def fully_transparent_def complex_alpha_def

lemmas alpha_test_defs =
  is_opaque_def is_fully_transparent_def is_transparent_def is_semi_transparent_def
  is_complex_def

text \<open>
  C1 (as the code has it). The mix rule: the result is complex as soon as one operand is
  complex or semi-transparent (also when the other operand is opaque); it is fully transparent
  when both operands are fully transparent and opaque when both are opaque; in the remaining
  case, where one operand is fully transparent and the other opaque, it is semi-transparent,
  driven by the factor socket, and the inversion flag is set exactly when the first operand is
  the opaque one.
\<close>

theorem mix_rule:
  "(is_complex a \<or> is_complex b \<longrightarrow> mix a b fac = complex_alpha) \<and>
   (is_semi_transparent a \<or> is_semi_transparent b \<longrightarrow> mix a b fac = complex_alpha) \<and>
   (is_fully_transparent a \<and> is_fully_transparent b \<longrightarrow>
      mix a b fac = fully_transparent None False) \<and>
   (is_opaque a \<and> is_opaque b \<longrightarrow> mix a b fac = opaque) \<and>
   (is_fully_transparent a \<and> is_opaque b \<longrightarrow> mix a b fac = alpha_source fac False) \<and>
   (is_opaque a \<and> is_fully_transparent b \<longrightarrow> mix a b fac = alpha_source fac True)"
  by (cases "state a"; cases "state b") (simp_all add: mix_def alpha_test_defs)

theorem mix_rule_witness:
  "is_complex complex_alpha \<and>
   mix complex_alpha opaque None = complex_alpha \<and>
   is_semi_transparent (alpha_source (Some (SockRef 1 SOCK_IN 4)) False) \<and>
   mix (alpha_source (Some (SockRef 1 SOCK_IN 4)) False) opaque (Some (SockRef 2 SOCK_IN 0))
     = complex_alpha \<and>
   is_fully_transparent (fully_transparent None False) \<and>
   mix (fully_transparent None False) (fully_transparent None False) None
     = fully_transparent None False \<and>
   is_opaque opaque \<and>
   mix opaque opaque None = opaque \<and>
   mix (fully_transparent None False) opaque (Some (SockRef 2 SOCK_IN 0))
     = alpha_source (Some (SockRef 2 SOCK_IN 0)) False \<and>
   mix opaque (fully_transparent None False) (Some (SockRef 2 SOCK_IN 0))
     = alpha_source (Some (SockRef 2 SOCK_IN 0)) True"
  using mix_rule [of complex_alpha opaque None]
    mix_rule [of "alpha_source (Some (SockRef 1 SOCK_IN 4)) False" opaque
      "Some (SockRef 2 SOCK_IN 0)"]
    mix_rule [of "fully_transparent None False" "fully_transparent None False" None]
    mix_rule [of opaque opaque None]
    mix_rule [of "fully_transparent None False" opaque "Some (SockRef 2 SOCK_IN 0)"]
    mix_rule [of opaque "fully_transparent None False" "Some (SockRef 2 SOCK_IN 0)"]
  by (simp add: alpha_test_defs alpha_ctor_defs)

text \<open>
  The claim's "otherwise" case lists a semi-transparent operand mixed with an opaque one as
  giving a semi-transparent result. The code returns the complex classification there.
\<close>

theorem mix_semi_opaque_counterexample:
  "is_semi_transparent (alpha_source (Some (SockRef 1 SOCK_IN 4)) False) \<and>
   is_opaque opaque \<and>
   \<not> is_semi_transparent
       (mix (alpha_source (Some (SockRef 1 SOCK_IN 4)) False) opaque
          (Some (SockRef 2 SOCK_IN 0))) \<and>
   mix (alpha_source (Some (SockRef 1 SOCK_IN 4)) False) opaque (Some (SockRef 2 SOCK_IN 0))
     = complex_alpha"
  by (simp add: mix_def alpha_test_defs alpha_ctor_defs)

text \<open>
  C7. The analyzer algebra: mixing is symmetric in the classification state; adding two
  opaque sources gives an opaque one and adding two fully transparent sources a fully
  transparent one; a complex operand on either side of mix or add gives a complex result.
\<close>

theorem analyzer_algebra:
  "state (mix a b fac) = state (mix b a fac) \<and>
   (is_opaque a \<and> is_opaque b \<longrightarrow> is_opaque (add a b)) \<and>
   (is_fully_transparent a \<and> is_fully_transparent b \<longrightarrow> is_fully_transparent (add a b)) \<and>
   (is_complex a \<or> is_complex b \<longrightarrow>
      is_complex (mix a b fac) \<and> is_complex (add a b))"
  by (cases "state a"; cases "state b")
     (simp_all add: mix_def add_def alpha_test_defs alpha_ctor_defs)

theorem analyzer_algebra_witness:
  "state (mix opaque (fully_transparent None False) None)
     = state (mix (fully_transparent None False) opaque None) \<and>
   is_opaque opaque \<and> is_opaque (add opaque opaque) \<and>
   is_fully_transparent (fully_transparent None False) \<and>
   is_fully_transparent (add (fully_transparent None False) (fully_transparent None False)) \<and>
   is_complex complex_alpha \<and>
   is_complex (mix complex_alpha opaque None) \<and> is_complex (add complex_alpha opaque) \<and>
   is_complex (mix opaque complex_alpha None) \<and> is_complex (add opaque complex_alpha)"
  using analyzer_algebra [of opaque "fully_transparent None False" None]
    analyzer_algebra [of opaque opaque None]
    analyzer_algebra [of "fully_transparent None False" "fully_transparent None False" None]
    analyzer_algebra [of complex_alpha opaque None]
    analyzer_algebra [of opaque complex_alpha None]
  by (simp add: alpha_test_defs alpha_ctor_defs)

section \<open>Properties of the alpha source analysis\<close>

declare versioning_eevee_alpha_source_get.simps [simp del]

lemmas ex_defs = ex_bke_def ex_tree_def ex_link_def ex_node_def ex_socket_def ex_interface_def
  ex_output_node_def ex_unconnected_def ex_group_surface_def ex_reroute_cycle_def
  ex_principled_node_def ex_texture_node_def ex_textured_alpha_def ex_material_def

lemmas graph_defs = node_at_def socket_at_def side_sockets_def sock_link_def ptr_link_def
  findlink_inputs_def find_socket_def version_cycles_node_socket_float_value_def
  version_cycles_node_socket_rgba_value_def

lemma alpha_source_get_dom_all:
  "versioning_eevee_alpha_source_get_dom (K, t, sock, depth)"
proof -
  have "All versioning_eevee_alpha_source_get_dom"
    by (relation "measure (\<lambda>(K, t, sock, depth). nat (101 - depth))") auto
  then show ?thesis by simp
qed

lemma alpha_source_get_cap:
  "depth > 100 \<Longrightarrow> versioning_eevee_alpha_source_get K t sock depth = Inr complex_alpha"
  by (simp add: versioning_eevee_alpha_source_get.simps)


text \<open>
  On the cyclic example every call on the reroute's input recurses on the same socket with
  the depth increased by one, and so ends in the complex classification at the cap.
\<close>

lemma reroute_cycle_step:
  "d \<le> 100 \<Longrightarrow>
   versioning_eevee_alpha_source_get K ex_reroute_cycle (Some (SockRef 1 SOCK_IN 0)) d =
   versioning_eevee_alpha_source_get K ex_reroute_cycle (Some (SockRef 1 SOCK_IN 0)) (d + 1)"
  by (subst versioning_eevee_alpha_source_get.simps) (simp add: ex_defs graph_defs)

lemma reroute_cycle_complex:
  "versioning_eevee_alpha_source_get K ex_reroute_cycle (Some (SockRef 1 SOCK_IN 0)) d =
   Inr complex_alpha"
proof (induction "nat (101 - d)" arbitrary: d)
  case 0
  then show ?case by (simp add: alpha_source_get_cap)
next
  case (Suc n)
  then have "d \<le> 100" and "n = nat (101 - (d + 1))" by auto
  then show ?case using Suc.hyps(1)[of "d + 1"] reroute_cycle_step[of d K] by simp
qed

lemma reroute_cycle_surface:
  "versioning_eevee_alpha_source_get K ex_reroute_cycle (Some (SockRef 0 SOCK_IN 0)) 0 =
   Inr complex_alpha"
proof -
  have "versioning_eevee_alpha_source_get K ex_reroute_cycle (Some (SockRef 0 SOCK_IN 0)) 0 =
        versioning_eevee_alpha_source_get K ex_reroute_cycle (Some (SockRef 1 SOCK_IN 0)) 1"
    by (subst versioning_eevee_alpha_source_get.simps) (simp add: ex_defs graph_defs)
  then show ?thesis using reroute_cycle_complex [of K 1] by simp
qed

lemma float_input_read:
  assumes "float_input_ok K node ident" and "node_at t n = Some node"
  shows "\<exists>i v. find_socket K n node SOCK_IN ident = Some (SockRef n SOCK_IN i) \<and>
    ptr_link t (Some (SockRef n SOCK_IN i)) = Inr (sock_link t (SockRef n SOCK_IN i)) \<and>
    version_cycles_node_socket_float_value t (Some (SockRef n SOCK_IN i)) = Inr v"
proof -
  from assms(1) obtain i where i: "nodeFindSocket K node SOCK_IN ident = Some i"
    "i < length (inputs node)"
    and "case default_value (inputs node ! i) of FloatValue _ \<Rightarrow> True | _ \<Rightarrow> False"
    by (cases "nodeFindSocket K node SOCK_IN ident") (simp_all add: float_input_ok_def)
  then obtain v where v: "default_value (inputs node ! i) = FloatValue v"
    by (cases "default_value (inputs node ! i)") simp_all
  have s: "socket_at t (SockRef n SOCK_IN i) = Some (inputs node ! i)"
    using assms(2) i(2) by (simp add: socket_at_def side_sockets_def)
  have "find_socket K n node SOCK_IN ident = Some (SockRef n SOCK_IN i)"
    using i(1) by (simp add: find_socket_def)
  moreover have "ptr_link t (Some (SockRef n SOCK_IN i)) = Inr (sock_link t (SockRef n SOCK_IN i))"
    using s by (simp add: ptr_link_def)
  moreover have "version_cycles_node_socket_float_value t (Some (SockRef n SOCK_IN i)) = Inr v"
    using s v by (simp add: version_cycles_node_socket_float_value_def)
  ultimately show ?thesis by blast
qed

lemma rgba_input_read:
  assumes "rgba_input_ok K node ident" and "node_at t n = Some node"
  shows "\<exists>i v. find_socket K n node SOCK_IN ident = Some (SockRef n SOCK_IN i) \<and>
    ptr_link t (Some (SockRef n SOCK_IN i)) = Inr (sock_link t (SockRef n SOCK_IN i)) \<and>
    version_cycles_node_socket_rgba_value t (Some (SockRef n SOCK_IN i)) = Inr v"
proof -
  from assms(1) obtain i where i: "nodeFindSocket K node SOCK_IN ident = Some i"
    "i < length (inputs node)"
    and "case default_value (inputs node ! i) of RGBAValue _ _ _ _ \<Rightarrow> True | _ \<Rightarrow> False"
    by (cases "nodeFindSocket K node SOCK_IN ident") (simp_all add: rgba_input_ok_def)
  then obtain r g b a where v: "default_value (inputs node ! i) = RGBAValue r g b a"
    by (cases "default_value (inputs node ! i)") simp_all
  have s: "socket_at t (SockRef n SOCK_IN i) = Some (inputs node ! i)"
    using assms(2) i(2) by (simp add: socket_at_def side_sockets_def)
  have "find_socket K n node SOCK_IN ident = Some (SockRef n SOCK_IN i)"
    using i(1) by (simp add: find_socket_def)
  moreover have "ptr_link t (Some (SockRef n SOCK_IN i)) = Inr (sock_link t (SockRef n SOCK_IN i))"
    using s by (simp add: ptr_link_def)
  moreover have "version_cycles_node_socket_rgba_value t (Some (SockRef n SOCK_IN i))
      = Inr (r, g, b, a)"
    using s v by (simp add: version_cycles_node_socket_rgba_value_def)
  ultimately show ?thesis by blast
qed

lemma alpha_bsdf_principled_returns:
  assumes "float_input_ok K node ''Alpha''" and "node_at t n = Some node"
  shows "\<exists>a. alpha_bsdf_principled K t n node = Inr a"
proof -
  from float_input_read[OF assms] obtain i v where
    "find_socket K n node SOCK_IN ''Alpha'' = Some (SockRef n SOCK_IN i)"
    "ptr_link t (Some (SockRef n SOCK_IN i)) = Inr (sock_link t (SockRef n SOCK_IN i))"
    "version_cycles_node_socket_float_value t (Some (SockRef n SOCK_IN i)) = Inr v"
    by blast
  then show ?thesis
    by (cases "sock_link t (SockRef n SOCK_IN i)") (simp_all add: alpha_bsdf_principled_def Let_def)
qed

lemma alpha_eevee_specular_returns:
  assumes "float_input_ok K node ''Transparency''" and "node_at t n = Some node"
  shows "\<exists>a. alpha_eevee_specular K t n node = Inr a"
proof -
  from float_input_read[OF assms] obtain i v where
    "find_socket K n node SOCK_IN ''Transparency'' = Some (SockRef n SOCK_IN i)"
    "ptr_link t (Some (SockRef n SOCK_IN i)) = Inr (sock_link t (SockRef n SOCK_IN i))"
    "version_cycles_node_socket_float_value t (Some (SockRef n SOCK_IN i)) = Inr v"
    by blast
  then show ?thesis
    by (cases "sock_link t (SockRef n SOCK_IN i)") (simp_all add: alpha_eevee_specular_def Let_def)
qed

lemma alpha_mix_shader_returns:
  assumes "float_input_ok K node ''Fac''" and "node_at t n = Some node"
  shows "\<exists>a. alpha_mix_shader K t n node src0 src1 = Inr a"
proof -
  from float_input_read[OF assms] obtain i v where
    "find_socket K n node SOCK_IN ''Fac'' = Some (SockRef n SOCK_IN i)"
    "ptr_link t (Some (SockRef n SOCK_IN i)) = Inr (sock_link t (SockRef n SOCK_IN i))"
    "version_cycles_node_socket_float_value t (Some (SockRef n SOCK_IN i)) = Inr v"
    by blast
  then show ?thesis
    by (cases "sock_link t (SockRef n SOCK_IN i)") (simp_all add: alpha_mix_shader_def Let_def)
qed

lemma alpha_bsdf_transparent_returns:
  assumes "rgba_input_ok K node ''Color''" and "node_at t n = Some node"
  shows "\<exists>a. alpha_bsdf_transparent K t n node = Inr a"
proof -
  from rgba_input_read[OF assms] obtain i v where
    "find_socket K n node SOCK_IN ''Color'' = Some (SockRef n SOCK_IN i)"
    "ptr_link t (Some (SockRef n SOCK_IN i)) = Inr (sock_link t (SockRef n SOCK_IN i))"
    "version_cycles_node_socket_rgba_value t (Some (SockRef n SOCK_IN i)) = Inr v"
    by blast
  then show ?thesis
    by (cases "sock_link t (SockRef n SOCK_IN i)"; cases v)
       (simp_all add: alpha_bsdf_transparent_def Let_def)
qed

lemma findlink_inputs_resolves:
  assumes "node_at t n = Some node" and "k < length (inputs node)"
  shows "findlink_inputs n node k = Some (SockRef n SOCK_IN k) \<and>
         socket_at t (SockRef n SOCK_IN k) \<noteq> None"
  using assms by (simp add: findlink_inputs_def socket_at_def side_sockets_def)

lemma alpha_source_get_returns:
  assumes ok: "shader_nodes_ok K t"
  shows "socket_at t s \<noteq> None \<Longrightarrow>
         \<exists>a. versioning_eevee_alpha_source_get K t (Some s) depth = Inr a"
proof (induction "nat (101 - depth)" arbitrary: s depth)
  case 0
  then show ?case by (simp add: alpha_source_get_cap)
next
  case (Suc m)
  then have d: "depth \<le> 100" and m: "m = nat (101 - (depth + 1))" by auto
  have pl: "ptr_link t (Some s) = Inr (sock_link t s)"
    using Suc.prems by (auto simp: ptr_link_def)
  note IH = Suc.hyps(1)[OF m]
  show ?case
  proof (cases "sock_link t s")
    case None
    with d pl show ?thesis by (simp add: versioning_eevee_alpha_source_get.simps)
  next
    case (Some l)
    then have "l \<in> set (links t)" by (auto simp: sock_link_def find_Some_iff)
    with ok have n: "node_at t (fromnode l) = Some (nodes t ! fromnode l)"
      and nok: "node_sockets_ok K (nodes t ! fromnode l)"
      by (auto simp: shader_nodes_ok_def node_at_def)
    let ?node = "nodes t ! fromnode l"
    let ?n = "fromnode l"
    have rec: "\<exists>a. versioning_eevee_alpha_source_get K t (findlink_inputs ?n ?node k)
                 (depth + 1) = Inr a" if "k < length (inputs ?node)" for k
      using findlink_inputs_resolves[OF n that] IH by auto
    have unfold: "versioning_eevee_alpha_source_get K t (Some s) depth =
        (case node_type ?node of
           NODE_REROUTE \<Rightarrow>
             versioning_eevee_alpha_source_get K t (findlink_inputs ?n ?node 0) (depth + 1)
         | NODE_GROUP \<Rightarrow> Inr complex_alpha
         | SH_NODE_BSDF_TRANSPARENT \<Rightarrow> alpha_bsdf_transparent K t ?n ?node
         | SH_NODE_MIX_SHADER \<Rightarrow>
             (case versioning_eevee_alpha_source_get K t (findlink_inputs ?n ?node 1)
                     (depth + 1) of
                Inl e \<Rightarrow> Inl e
              | Inr src0 \<Rightarrow>
                  (case versioning_eevee_alpha_source_get K t (findlink_inputs ?n ?node 2)
                          (depth + 1) of
                     Inl e \<Rightarrow> Inl e
                   | Inr src1 \<Rightarrow> alpha_mix_shader K t ?n ?node src0 src1))
         | SH_NODE_ADD_SHADER \<Rightarrow>
             (case versioning_eevee_alpha_source_get K t (findlink_inputs ?n ?node 0)
                     (depth + 1) of
                Inl e \<Rightarrow> Inl e
              | Inr src0 \<Rightarrow>
                  (case versioning_eevee_alpha_source_get K t (findlink_inputs ?n ?node 1)
                          (depth + 1) of
                     Inl e \<Rightarrow> Inl e
                   | Inr src1 \<Rightarrow> Inr (add src0 src1)))
         | SH_NODE_BSDF_PRINCIPLED \<Rightarrow> alpha_bsdf_principled K t ?n ?node
         | SH_NODE_EEVEE_SPECULAR \<Rightarrow> alpha_eevee_specular K t ?n ?node
         | SH_NODE_OUTPUT_MATERIAL \<Rightarrow> Inr opaque
         | NODE_OTHER_TYPE _ \<Rightarrow> Inr opaque)"
      using d pl Some n by (subst versioning_eevee_alpha_source_get.simps) simp
    show ?thesis
    proof (cases "node_type ?node")
      case NODE_REROUTE
      with nok have "0 < length (inputs ?node)"
        by (auto simp: node_sockets_ok_def)
      from rec[OF this] NODE_REROUTE show ?thesis
        by (simp add: unfold)
    next
      case NODE_GROUP
      then show ?thesis by (simp add: unfold)
    next
      case SH_NODE_BSDF_TRANSPARENT
      with nok have "rgba_input_ok K ?node ''Color''"
        by (simp add: node_sockets_ok_def)
      from alpha_bsdf_transparent_returns[OF this n] SH_NODE_BSDF_TRANSPARENT show ?thesis
        by (simp add: unfold)
    next
      case SH_NODE_MIX_SHADER
      with nok have len: "1 < length (inputs ?node)" "2 < length (inputs ?node)"
        and fac: "float_input_ok K ?node ''Fac''"
        by (auto simp: node_sockets_ok_def)
      from rec[OF len(1)] rec[OF len(2)] obtain a0 a1 where
        a: "versioning_eevee_alpha_source_get K t (findlink_inputs ?n ?node 1) (depth + 1)
              = Inr a0"
           "versioning_eevee_alpha_source_get K t (findlink_inputs ?n ?node 2) (depth + 1)
              = Inr a1"
        by blast
      from alpha_mix_shader_returns[OF fac n, of a0 a1] SH_NODE_MIX_SHADER a show ?thesis
        by (simp add: unfold)
    next
      case SH_NODE_ADD_SHADER
      with nok have len: "0 < length (inputs ?node)" "1 < length (inputs ?node)"
        by (auto simp: node_sockets_ok_def)
      from rec[OF len(1)] rec[OF len(2)] obtain a0 a1 where
        a: "versioning_eevee_alpha_source_get K t (findlink_inputs ?n ?node 0) (depth + 1)
              = Inr a0"
           "versioning_eevee_alpha_source_get K t (findlink_inputs ?n ?node 1) (depth + 1)
              = Inr a1"
        by blast
      from SH_NODE_ADD_SHADER a show ?thesis
        by (simp add: unfold)
    next
      case SH_NODE_BSDF_PRINCIPLED
      with nok have "float_input_ok K ?node ''Alpha''"
        by (simp add: node_sockets_ok_def)
      from alpha_bsdf_principled_returns[OF this n] SH_NODE_BSDF_PRINCIPLED show ?thesis
        by (simp add: unfold)
    next
      case SH_NODE_EEVEE_SPECULAR
      with nok have "float_input_ok K ?node ''Transparency''"
        by (simp add: node_sockets_ok_def)
      from alpha_eevee_specular_returns[OF this n] SH_NODE_EEVEE_SPECULAR show ?thesis
        by (simp add: unfold)
    next
      case SH_NODE_OUTPUT_MATERIAL
      then show ?thesis by (simp add: unfold)
    next
      case (NODE_OTHER_TYPE x)
      then show ?thesis by (simp add: unfold)
    qed
  qed
qed

text \<open>
  C9. \<^verbatim>\<open>versioning_eevee_alpha_source_get\<close> terminates on every tree, socket and depth (the
  recursion is well-founded on every argument, cyclic graphs included), and a call with a
  depth above the cap of 100 returns the complex classification at once. On a tree whose
  shader nodes have the sockets that the analysis dereferences, it returns a classification
  for every socket of the tree and every depth.
\<close>

theorem alpha_source_get_terminates:
  "versioning_eevee_alpha_source_get_dom (K, t, sock, depth) \<and>
   (depth > 100 \<longrightarrow> versioning_eevee_alpha_source_get K t sock depth = Inr complex_alpha) \<and>
   (shader_nodes_ok K t \<and> socket_at t s \<noteq> None \<longrightarrow>
      (\<exists>a. versioning_eevee_alpha_source_get K t (Some s) depth = Inr a))"
  using alpha_source_get_returns [of K t s depth]
  by (simp add: alpha_source_get_dom_all alpha_source_get_cap)

theorem alpha_source_get_terminates_witness:
  "versioning_eevee_alpha_source_get_dom
     (ex_bke, ex_reroute_cycle, Some (SockRef 1 SOCK_IN 0), 101) \<and>
   (101 :: int) > 100 \<and>
   versioning_eevee_alpha_source_get ex_bke ex_reroute_cycle (Some (SockRef 1 SOCK_IN 0)) 101
     = Inr complex_alpha \<and>
   shader_nodes_ok ex_bke ex_reroute_cycle \<and>
   socket_at ex_reroute_cycle (SockRef 0 SOCK_IN 0) \<noteq> None \<and>
   versioning_eevee_alpha_source_get ex_bke ex_reroute_cycle (Some (SockRef 0 SOCK_IN 0)) 0
     = Inr complex_alpha"
proof -
  have ok: "shader_nodes_ok ex_bke ex_reroute_cycle"
    by (simp add: shader_nodes_ok_def node_sockets_ok_def ex_defs)
  have s: "socket_at ex_reroute_cycle (SockRef 0 SOCK_IN 0) \<noteq> None"
    by (simp add: ex_defs graph_defs)
  show ?thesis
    using alpha_source_get_terminates [of ex_bke ex_reroute_cycle "Some (SockRef 1 SOCK_IN 0)"
        101 "SockRef 0 SOCK_IN 0"] ok s
    by (simp add: reroute_cycle_surface)
qed






section \<open>Properties of the blend mode conversion\<close>

lemma sock_link_Some: "sock_link t s = Some l \<Longrightarrow> tosock l = s \<and> l \<in> set (links t)"
  by (auto simp: sock_link_def find_Some_iff)

lemma sock_link_None_iff: "sock_link t s = None \<longleftrightarrow> (\<forall>l \<in> set (links t). tosock l \<noteq> s)"
  by (auto simp: sock_link_def find_None_iff)

lemma distinct_tosock_remove1:
  assumes "distinct (map tosock ls)" and "l \<in> set ls"
  shows "\<forall>l' \<in> set (remove1 l ls). tosock l' \<noteq> tosock l"
  using assms
proof (induction ls)
  case Nil
  then show ?case by simp
next
  case (Cons a ls)
  show ?case
  proof (cases "a = l")
    case True
    with Cons.prems show ?thesis by (auto simp: image_iff)
  next
    case False
    with Cons show ?thesis by (auto simp: image_iff)
  qed
qed

lemma blend_mode_insert_math_result:
  assumes l: "sock_link ntree s = Some l"
    and to_node: "node_at ntree (tonode l) = Some to_node"
    and from_node: "node_at ntree (fromnode l) = Some from_node"
    and valid: "\<forall>l' \<in> set (links ntree). ref_node (tosock l') < length (nodes ntree)"
    and single: "\<forall>l' \<in> set (remove1 l (links ntree)). tosock l' \<noteq> s"
    and m0: "node_type_new K ''ShaderNodeMath'' = m0"
    and m0_in: "2 \<le> length (inputs m0)" and m0_out: "outputs m0 \<noteq> []"
    and m0_val: "default_value (inputs m0 ! 1) = FloatValue x"
  shows "blend_mode_insert_math K ntree alpha l threshold =
     Inr (ntree\<lparr>nodes := nodes ntree @
            [m0\<lparr>inputs := (inputs m0)[1 := (inputs m0 ! 1)\<lparr>default_value :=
                    FloatValue (if is_transparency alpha then 1 - threshold else threshold)\<rparr>],
                custom1 := NODE_MATH_GREATER_THAN K,
                flag := insert NODE_HIDDEN (flag m0),
                parent := parent to_node,
                locx := locx to_node - width m0 - 30,
                locy := min (locy to_node) (locy from_node)\<rparr>],
          links := remove1 l (links ntree) @
            [\<lparr>fromnode = fromnode l, fromsock = fromsock l,
              tonode = length (nodes ntree), tosock = SockRef (length (nodes ntree)) SOCK_IN 0\<rparr>,
             \<lparr>fromnode = length (nodes ntree), fromsock = SockRef (length (nodes ntree)) SOCK_OUT 0,
              tonode = tonode l, tosock = s\<rparr>]\<rparr>)"
proof -
  let ?n = "length (nodes ntree)"
  let ?mid = "m0\<lparr>custom1 := NODE_MATH_GREATER_THAN K,
                flag := insert NODE_HIDDEN (flag m0),
                parent := parent to_node,
                locx := locx to_node - width m0 - 30,
                locy := min (locy to_node) (locy from_node)\<rparr>"
  let ?t2 = "ntree\<lparr>nodes := nodes ntree @ [m0], links := remove1 l (links ntree)\<rparr>"
  let ?t3 = "ntree\<lparr>nodes := nodes ntree @ [?mid], links := remove1 l (links ntree)\<rparr>"
  have ts: "tosock l = s" using sock_link_Some[OF l] by simp
  have an: "nodeAddNode K (nodeRemLink ntree l) ''ShaderNodeMath'' = (?t2, ?n)"
    by (simp add: nodeAddNode_def nodeRemLink_def m0)
  have t3: "update_node ?t2 ?n
              (\<lambda>m. m\<lparr>custom1 := NODE_MATH_GREATER_THAN K,
                       flag := insert NODE_HIDDEN (flag m),
                       parent := parent to_node,
                       locx := locx to_node - width m - 30,
                       locy := min (locy to_node) (locy from_node)\<rparr>) = ?t3"
    by (simp add: update_node_def)
  have nolink_in: "sock_link ?t3 (SockRef ?n SOCK_IN 0) = None"
  proof -
    have "\<forall>l' \<in> set (remove1 l (links ntree)). tosock l' \<noteq> SockRef ?n SOCK_IN 0"
      using valid set_remove1_subset[of l "links ntree"] by fastforce
    then show ?thesis by (simp add: sock_link_None_iff)
  qed
  let ?l1 = "\<lparr>fromnode = fromnode l, fromsock = fromsock l,
              tonode = ?n, tosock = SockRef ?n SOCK_IN 0\<rparr>"
  let ?t4 = "ntree\<lparr>nodes := nodes ntree @ [?mid], links := remove1 l (links ntree) @ [?l1]\<rparr>"
  have t4: "nodeAddLink ?t3 (fromnode l) (Some (fromsock l)) ?n (Some (SockRef ?n SOCK_IN 0))
      = Inr ?t4"
    using nolink_in by (simp add: nodeAddLink_def)
  have "s \<noteq> SockRef ?n SOCK_IN 0"
    using valid sock_link_Some[OF l] by auto
  then have nolink_s: "sock_link ?t4 s = None"
    using single by (auto simp add: sock_link_None_iff)
  let ?l2 = "\<lparr>fromnode = ?n, fromsock = SockRef ?n SOCK_OUT 0, tonode = tonode l, tosock = s\<rparr>"
  let ?t5 = "ntree\<lparr>nodes := nodes ntree @ [?mid],
                   links := remove1 l (links ntree) @ [?l1, ?l2]\<rparr>"
  have t5: "nodeAddLink ?t4 ?n (Some (SockRef ?n SOCK_OUT 0)) (tonode l) (Some s) = Inr ?t5"
    using nolink_s by (simp add: nodeAddLink_def)
  have rd: "version_cycles_node_socket_float_value ?t5 (Some (SockRef ?n SOCK_IN 1)) = Inr x"
    using m0_in m0_val
    by (simp add: version_cycles_node_socket_float_value_def socket_at_def node_at_def
        side_sockets_def)
  have wr: "write_float_value ?t5 (Some (SockRef ?n SOCK_IN 1)) v =
     Inr (set_default_value ?t5 (SockRef ?n SOCK_IN 1) (FloatValue v))" for v
    using rd by (simp add: write_float_value_def)
  have fin: "write_float_value ?t5 (Some (SockRef ?n SOCK_IN 1)) v =
     Inr (ntree\<lparr>nodes := nodes ntree @
            [?mid\<lparr>inputs := (inputs m0)[1 := (inputs m0 ! 1)\<lparr>default_value := FloatValue v\<rparr>]\<rparr>],
          links := remove1 l (links ntree) @ [?l1, ?l2]\<rparr>)" for v
    using wr[of v] by (simp add: set_default_value_def update_node_def)
  have i0: "inputs m0 \<noteq> []" and i1: "Suc 0 < length (inputs m0)"
    using m0_in by auto
  show ?thesis
    unfolding blend_mode_insert_math_def
    using to_node from_node m0_out i0 i1
    by (simp add: Let_def an t3 findlink_inputs_def ts t4 t5 fin[unfolded One_nat_def])
qed

text \<open>
  C2. Let the surface be classified semi-transparent with a driving socket \<open>s\<close> that has the
  incoming link \<open>l\<close>, and let the threshold differ from 2. Then the conversion returns true,
  the link \<open>l\<close> is gone, exactly one node is appended, the math node in greater-than mode;
  the source socket of \<open>l\<close> feeds its first input, its output feeds \<open>s\<close>, and its second input
  holds the threshold, or one minus the threshold when the source is a transparency. Nothing
  else in the tree changes.
\<close>

theorem math_node_is_inserted:
  assumes "version_eevee_output_node_get K ntree SH_NODE_OUTPUT_MATERIAL = Some out_id"
    and "node_at ntree out_id = Some output_node"
    and "versioning_eevee_alpha_source_get K ntree
           (find_socket K out_id output_node SOCK_IN ''Surface'') 0 = Inr alpha"
    and "is_semi_transparent alpha" and "socket alpha = Some s"
    and "socket_at ntree s \<noteq> None" and "sock_link ntree s = Some l"
    and "threshold \<noteq> 2"
    and "graph_valid ntree"
    and "node_type_new K ''ShaderNodeMath'' = m0"
    and "2 \<le> length (inputs m0)" and "outputs m0 \<noteq> []"
    and "default_value (inputs m0 ! 1) = FloatValue x"
  shows "versioning_eevee_material_blend_mode_settings K ntree threshold =
     Inr (True,
       ntree\<lparr>nodes := nodes ntree @
            [m0\<lparr>inputs := (inputs m0)[1 := (inputs m0 ! 1)\<lparr>default_value :=
                    FloatValue (if is_transparency alpha then 1 - threshold else threshold)\<rparr>],
                custom1 := NODE_MATH_GREATER_THAN K,
                flag := insert NODE_HIDDEN (flag m0),
                parent := parent (nodes ntree ! tonode l),
                locx := locx (nodes ntree ! tonode l) - width m0 - 30,
                locy := min (locy (nodes ntree ! tonode l)) (locy (nodes ntree ! fromnode l))\<rparr>],
          links := remove1 l (links ntree) @
            [\<lparr>fromnode = fromnode l, fromsock = fromsock l,
              tonode = length (nodes ntree), tosock = SockRef (length (nodes ntree)) SOCK_IN 0\<rparr>,
             \<lparr>fromnode = length (nodes ntree), fromsock = SockRef (length (nodes ntree)) SOCK_OUT 0,
              tonode = tonode l, tosock = s\<rparr>]\<rparr>) \<and>
     l \<notin> set (remove1 l (links ntree))"
proof -
  have lin: "l \<in> set (links ntree)" and ts: "tosock l = s"
    using sock_link_Some[OF assms(7)] by simp_all
  have valid: "\<forall>l' \<in> set (links ntree). ref_node (tosock l') < length (nodes ntree)"
    and dist: "distinct (map tosock (links ntree))"
    using assms(9) by (simp_all add: graph_valid_def)
  have to_node: "node_at ntree (tonode l) = Some (nodes ntree ! tonode l)"
    and from_node: "node_at ntree (fromnode l) = Some (nodes ntree ! fromnode l)"
    using assms(9) lin by (auto simp: graph_valid_def node_at_def)
  have single: "\<forall>l' \<in> set (remove1 l (links ntree)). tosock l' \<noteq> s"
    using distinct_tosock_remove1[OF dist lin] ts by simp
  have gone: "l \<notin> set (remove1 l (links ntree))"
    using single ts by auto
  have pl: "ptr_link ntree (Some s) = Inr (Some l)"
    using assms(6,7) by (auto simp: ptr_link_def)
  have nc: "\<not> is_complex alpha"
    using assms(4) by (simp add: alpha_test_defs)
  note res = blend_mode_insert_math_result[OF assms(7) to_node from_node valid single
      assms(10) assms(11) assms(12) assms(13), of alpha threshold]
  show ?thesis
    using assms(1,2,3,5,8) nc gone
    by (simp add: versioning_eevee_material_blend_mode_settings_def pl res)
qed

theorem math_node_is_inserted_witness:
  "versioning_eevee_alpha_source_get ex_bke ex_textured_alpha
     (find_socket ex_bke 0 ex_output_node SOCK_IN ''Surface'') 0
     = Inr (alpha_source (Some (SockRef 1 SOCK_IN 1)) False) \<and>
   sock_link ex_textured_alpha (SockRef 1 SOCK_IN 1) = Some (ex_link 2 1 1 1) \<and>
   graph_valid ex_textured_alpha \<and>
   versioning_eevee_material_blend_mode_settings ex_bke ex_textured_alpha (1/2) =
     Inr (True,
       ex_tree
         [ex_output_node, ex_principled_node, ex_texture_node,
          (ex_node (NODE_OTHER_TYPE 0)
             [ex_socket ''Value'' SOCK_FLOAT (FloatValue (1/2)),
              ex_socket ''Value_001'' SOCK_FLOAT (FloatValue (1/2)),
              ex_socket ''Value_002'' SOCK_FLOAT (FloatValue (1/2))]
             [ex_socket ''Value'' SOCK_FLOAT (FloatValue 0)] (-70))
            \<lparr>custom1 := 16, flag := {NODE_HIDDEN}\<rparr>]
         [ex_link 1 0 0 0, ex_link 2 1 3 0, ex_link 3 0 1 1])"
proof -
  have a: "versioning_eevee_alpha_source_get ex_bke ex_textured_alpha
     (find_socket ex_bke 0 ex_output_node SOCK_IN ''Surface'') 0
     = Inr (alpha_source (Some (SockRef 1 SOCK_IN 1)) False)"
    by (simp add: versioning_eevee_alpha_source_get.simps ex_defs graph_defs
        alpha_bsdf_principled_def)
  have h1: "version_eevee_output_node_get ex_bke ex_textured_alpha SH_NODE_OUTPUT_MATERIAL
      = Some 0"
    by (simp add: ex_defs)
  have h2: "node_at ex_textured_alpha 0 = Some ex_output_node"
    by (simp add: ex_defs graph_defs)
  have h4: "is_semi_transparent (alpha_source (Some (SockRef 1 SOCK_IN 1)) False)"
    and h5: "socket (alpha_source (Some (SockRef 1 SOCK_IN 1)) False) = Some (SockRef 1 SOCK_IN 1)"
    by (simp_all add: alpha_test_defs alpha_ctor_defs)
  have h6: "socket_at ex_textured_alpha (SockRef 1 SOCK_IN 1) \<noteq> None"
    by (simp add: ex_defs graph_defs)
  have h7: "sock_link ex_textured_alpha (SockRef 1 SOCK_IN 1) = Some (ex_link 2 1 1 1)"
    by (simp add: ex_defs graph_defs)
  have h8: "(1/2 :: real) \<noteq> 2" by simp
  have h9: "graph_valid ex_textured_alpha"
    by (simp add: graph_valid_def ex_defs)
  have h10: "node_type_new ex_bke ''ShaderNodeMath'' =
      ex_node (NODE_OTHER_TYPE 0)
        [ex_socket ''Value'' SOCK_FLOAT (FloatValue (1/2)),
         ex_socket ''Value_001'' SOCK_FLOAT (FloatValue 0),
         ex_socket ''Value_002'' SOCK_FLOAT (FloatValue (1/2))]
        [ex_socket ''Value'' SOCK_FLOAT (FloatValue 0)] 0"
    by (simp add: ex_bke_def)
  have h11: "2 \<le> length (inputs (ex_node (NODE_OTHER_TYPE 0)
        [ex_socket ''Value'' SOCK_FLOAT (FloatValue (1/2)),
         ex_socket ''Value_001'' SOCK_FLOAT (FloatValue 0),
         ex_socket ''Value_002'' SOCK_FLOAT (FloatValue (1/2))]
        [ex_socket ''Value'' SOCK_FLOAT (FloatValue 0)] 0))"
    and h12: "outputs (ex_node (NODE_OTHER_TYPE 0)
        [ex_socket ''Value'' SOCK_FLOAT (FloatValue (1/2)),
         ex_socket ''Value_001'' SOCK_FLOAT (FloatValue 0),
         ex_socket ''Value_002'' SOCK_FLOAT (FloatValue (1/2))]
        [ex_socket ''Value'' SOCK_FLOAT (FloatValue 0)] 0) \<noteq> []"
    and h13: "default_value (inputs (ex_node (NODE_OTHER_TYPE 0)
        [ex_socket ''Value'' SOCK_FLOAT (FloatValue (1/2)),
         ex_socket ''Value_001'' SOCK_FLOAT (FloatValue 0),
         ex_socket ''Value_002'' SOCK_FLOAT (FloatValue (1/2))]
        [ex_socket ''Value'' SOCK_FLOAT (FloatValue 0)] 0) ! 1) = FloatValue 0"
    by (simp_all add: ex_node_def ex_socket_def)
  show ?thesis
    using math_node_is_inserted [OF h1 h2 a h4 h5 h6 h7 h8 h9 h10 h11 h12 h13] a h7 h9
    by (simp add: ex_defs alpha_ctor_defs)
qed

section \<open>Properties of the version gate\<close>












section \<open>Properties of the socket list conversion\<close>

lemma move_sockets_loop_arr:
  "offset + index + length socks \<le> length arr \<Longrightarrow>
   fst (move_sockets_loop socks in_out offset index arr) =
     take (offset + index) arr @
     map (\<lambda>s. Some (fst (legacy_socket_move_to_interface s in_out))) socks @
     drop (offset + index + length socks) arr"
proof (induction socks arbitrary: index arr)
  case Nil
  then show ?case by simp
next
  case (Cons sock rest)
  let ?item = "fst (legacy_socket_move_to_interface sock in_out)"
  let ?arr = "arr[offset + index := Some ?item]"
  have len: "offset + (index + 1) + length rest \<le> length ?arr"
    using Cons.prems by simp
  have lt: "offset + index < length arr" using Cons.prems by simp
  have "take (offset + (index + 1)) ?arr = take (offset + index) arr @ [Some ?item]"
    using lt by (simp add: take_Suc_conv_app_nth)
  moreover have "drop (offset + (index + 1) + length rest) ?arr
      = drop (offset + index + length (sock # rest)) arr"
    by simp
  ultimately show ?case
    using Cons.IH[OF len] by (simp add: split_beta Let_def)
qed

lemma move_sockets_loop_socks:
  "snd (move_sockets_loop socks in_out offset index arr) =
     map (\<lambda>s. snd (legacy_socket_move_to_interface s in_out)) socks"
  by (induction socks arbitrary: index arr) (simp_all add: split_beta Let_def)

lemma those_map_Some: "those (map Some xs) = Some xs"
  by (induction xs) simp_all

lemma convert_socket_lists_result:
  "versioning_convert_node_tree_socket_lists_to_interface ntree =
     Inr (ntree\<lparr>inputs_legacy :=
                 map (\<lambda>s. snd (legacy_socket_move_to_interface s SOCK_IN)) (inputs_legacy ntree),
               outputs_legacy :=
                 map (\<lambda>s. snd (legacy_socket_move_to_interface s SOCK_OUT)) (outputs_legacy ntree),
               tree_interface := (tree_interface ntree)\<lparr>root_panel :=
                 Panel (panel_name (root_panel (tree_interface ntree)))
                   (panel_flag (root_panel (tree_interface ntree)))
                   (map (\<lambda>s. fst (legacy_socket_move_to_interface s SOCK_OUT))
                      (outputs_legacy ntree) @
                    map (\<lambda>s. fst (legacy_socket_move_to_interface s SOCK_IN))
                      (inputs_legacy ntree))\<rparr>\<rparr>)"
proof -
  let ?ni = "length (inputs_legacy ntree)" and ?no = "length (outputs_legacy ntree)"
  let ?outs = "map (\<lambda>s. fst (legacy_socket_move_to_interface s SOCK_OUT)) (outputs_legacy ntree)"
  let ?ins = "map (\<lambda>s. fst (legacy_socket_move_to_interface s SOCK_IN)) (inputs_legacy ntree)"
  let ?arr0 = "replicate (?ni + ?no) (None :: bNodeTreeInterfaceItem option)"
  let ?arr1 = "fst (move_sockets_loop (outputs_legacy ntree) SOCK_OUT 0 0 ?arr0)"
  have a1: "?arr1 = map Some ?outs @ replicate ?ni None"
    by (subst move_sockets_loop_arr) (simp_all add: comp_def)
  let ?arr2 = "fst (move_sockets_loop (inputs_legacy ntree) SOCK_IN ?no 0 ?arr1)"
  have "?arr2 = map Some ?outs @ map Some ?ins"
    by (subst move_sockets_loop_arr) (simp_all add: a1 comp_def)
  then have "those ?arr2 = Some (?outs @ ?ins)"
    using those_map_Some[of "?outs @ ?ins"] by simp
  then show ?thesis
    by (simp add: versioning_convert_node_tree_socket_lists_to_interface_def Let_def split_beta
        move_sockets_loop_socks)
qed

lemma legacy_socket_idname_base_type:
  "legacy_socket_idname_to_socket_type idn =
     (if idn \<in> {''NodeSocketFloatUnsigned'', ''NodeSocketFloatPercentage'',
                 ''NodeSocketFloatFactor'', ''NodeSocketFloatAngle'', ''NodeSocketFloatTime'',
                 ''NodeSocketFloatTimeAbsolute'', ''NodeSocketFloatDistance''}
      then ''NodeSocketFloat''
      else if idn \<in> {''NodeSocketIntUnsigned'', ''NodeSocketIntPercentage'',
                      ''NodeSocketIntFactor''}
      then ''NodeSocketInt''
      else if idn \<in> {''NodeSocketVectorTranslation'', ''NodeSocketVectorDirection'',
                      ''NodeSocketVectorVelocity'', ''NodeSocketVectorAcceleration'',
                      ''NodeSocketVectorEuler'', ''NodeSocketVectorXYZ''}
      then ''NodeSocketVector''
      else idn)"
  by (simp add: legacy_socket_idname_to_socket_type_def subtypes_map_def)

lemma legacy_socket_move_item:
  "fst (legacy_socket_move_to_interface s in_out) =
     Socket_item
       \<lparr>name = legacy_name s,
        description = legacy_description s,
        socket_type = legacy_socket_idname_to_socket_type (idname s),
        socket_flag =
          {if in_out = SOCK_IN then NODE_INTERFACE_SOCKET_INPUT else NODE_INTERFACE_SOCKET_OUTPUT} \<union>
          (if SOCK_HIDE_VALUE \<in> legacy_flag s then {NODE_INTERFACE_SOCKET_HIDE_VALUE} else {}) \<union>
          (if SOCK_HIDE_IN_MODIFIER \<in> legacy_flag s
           then {NODE_INTERFACE_SOCKET_HIDE_IN_MODIFIER} else {}),
        attribute_domain = legacy_attribute_domain s,
        default_attribute_name = legacy_default_attribute_name s,
        socket_identifier = legacy_identifier s,
        socket_data = legacy_default_value s,
        properties = legacy_prop s\<rparr>"
  by (auto simp: legacy_socket_move_to_interface_def SET_FLAG_FROM_TEST_def Let_def)

text \<open>
  C4. The conversion succeeds on every tree and makes the root panel's items the items of
  the legacy outputs in their order followed by the items of the legacy inputs in their
  order. The item of a legacy socket is a socket item with the same name, identifier and
  description, the default value and the attribute domain; it is an input or an output as
  the list says and hides its value (in the modifier) exactly when the legacy socket does.
  Its type is the base type of the legacy socket's type name: \<^verbatim>\<open>NodeSocketFloat\<close>,
  \<^verbatim>\<open>NodeSocketInt\<close> or \<^verbatim>\<open>NodeSocketVector\<close> for the sixteen type names that carry a subtype
  of one of these, and the type name itself for every other one.
\<close>

theorem socket_lists_become_root_items:
  "versioning_convert_node_tree_socket_lists_to_interface ntree =
     Inr (ntree\<lparr>inputs_legacy :=
                 map (\<lambda>s. snd (legacy_socket_move_to_interface s SOCK_IN)) (inputs_legacy ntree),
               outputs_legacy :=
                 map (\<lambda>s. snd (legacy_socket_move_to_interface s SOCK_OUT)) (outputs_legacy ntree),
               tree_interface := (tree_interface ntree)\<lparr>root_panel :=
                 Panel (panel_name (root_panel (tree_interface ntree)))
                   (panel_flag (root_panel (tree_interface ntree)))
                   (map (\<lambda>s. fst (legacy_socket_move_to_interface s SOCK_OUT))
                      (outputs_legacy ntree) @
                    map (\<lambda>s. fst (legacy_socket_move_to_interface s SOCK_IN))
                      (inputs_legacy ntree))\<rparr>\<rparr>) \<and>
   fst (legacy_socket_move_to_interface s in_out) =
     Socket_item
       \<lparr>name = legacy_name s,
        description = legacy_description s,
        socket_type =
          (if idname s \<in> {''NodeSocketFloatUnsigned'', ''NodeSocketFloatPercentage'',
                          ''NodeSocketFloatFactor'', ''NodeSocketFloatAngle'',
                          ''NodeSocketFloatTime'', ''NodeSocketFloatTimeAbsolute'',
                          ''NodeSocketFloatDistance''}
           then ''NodeSocketFloat''
           else if idname s \<in> {''NodeSocketIntUnsigned'', ''NodeSocketIntPercentage'',
                               ''NodeSocketIntFactor''}
           then ''NodeSocketInt''
           else if idname s \<in> {''NodeSocketVectorTranslation'', ''NodeSocketVectorDirection'',
                               ''NodeSocketVectorVelocity'', ''NodeSocketVectorAcceleration'',
                               ''NodeSocketVectorEuler'', ''NodeSocketVectorXYZ''}
           then ''NodeSocketVector''
           else idname s),
        socket_flag =
          {if in_out = SOCK_IN then NODE_INTERFACE_SOCKET_INPUT else NODE_INTERFACE_SOCKET_OUTPUT} \<union>
          (if SOCK_HIDE_VALUE \<in> legacy_flag s then {NODE_INTERFACE_SOCKET_HIDE_VALUE} else {}) \<union>
          (if SOCK_HIDE_IN_MODIFIER \<in> legacy_flag s
           then {NODE_INTERFACE_SOCKET_HIDE_IN_MODIFIER} else {}),
        attribute_domain = legacy_attribute_domain s,
        default_attribute_name = legacy_default_attribute_name s,
        socket_identifier = legacy_identifier s,
        socket_data = legacy_default_value s,
        properties = legacy_prop s\<rparr>"
  using convert_socket_lists_result
    legacy_socket_move_item [of s in_out, unfolded legacy_socket_idname_base_type]
  by (rule conjI)

text \<open>Outputs \<open>[B]\<close> and inputs \<open>[A]\<close> give the root items \<open>[B, A]\<close>.\<close>

theorem socket_lists_become_root_items_witness:
  "map_sum id (\<lambda>t. items_array (root_panel (tree_interface t)))
     (versioning_convert_node_tree_socket_lists_to_interface ex_legacy_tree) =
   Inr [Socket_item
          \<lparr>name = ''B'', description = ''about B'', socket_type = ''NodeSocketFloat'',
           socket_flag = {NODE_INTERFACE_SOCKET_OUTPUT}, attribute_domain = 1,
           default_attribute_name = None, socket_identifier = ''Id_B'',
           socket_data = Some (FloatValue (1/4)), properties = None\<rparr>,
        Socket_item
          \<lparr>name = ''A'', description = ''about A'', socket_type = ''NodeSocketFloat'',
           socket_flag = {NODE_INTERFACE_SOCKET_INPUT, NODE_INTERFACE_SOCKET_HIDE_VALUE},
           attribute_domain = 1, default_attribute_name = None, socket_identifier = ''Id_A'',
           socket_data = Some (FloatValue (1/4)), properties = None\<rparr>]"
  using socket_lists_become_root_items [of ex_legacy_tree
      "ex_legacy ''B'' ''NodeSocketFloat'' {}" SOCK_OUT]
    socket_lists_become_root_items [of ex_legacy_tree
      "ex_legacy ''A'' ''NodeSocketFloatFactor'' {SOCK_HIDE_VALUE}" SOCK_IN]
  by (simp add: ex_legacy_tree_def ex_legacy_def ex_interface_def insert_commute)

section \<open>Properties of the socket split\<close>

declare socket_position_loop.simps [simp del] panel_position_loop.simps [simp del]
  decimal_digits.simps [simp del]

lemma socket_position_loop_no_panel:
  "(\<forall>j. test_pos \<le> j \<and> int j < initial_pos \<and> j < length items \<longrightarrow>
        item_type (items ! j) = NODE_INTERFACE_SOCKET) \<Longrightarrow> pos = initial_pos \<Longrightarrow>
   socket_position_loop items initial_pos test_pos pos = initial_pos"
proof (induction items initial_pos test_pos pos rule: socket_position_loop.induct)
  case (1 items initial_pos test_pos pos)
  show ?case
  proof (cases "int test_pos < initial_pos \<and> test_pos < length items")
    case True
    with "1.prems" have sock: "item_type (items ! test_pos) = NODE_INTERFACE_SOCKET" by auto
    have "socket_position_loop items initial_pos (test_pos + 1) pos = initial_pos"
      using True "1.IH" "1.prems" sock by auto
    then show ?thesis
      using True sock by (subst socket_position_loop.simps) simp
  next
    case False
    then show ?thesis
      using "1.prems"(2)
      by (subst socket_position_loop.simps, subst socket_position_loop.simps) auto
  qed
qed


lemma split_socket_result:
  assumes pp: "parent_ptr = Some path \<or> parent_ptr = None \<and> path = []"
    and par: "panel_at (root_panel ti) path = Some (Panel n fl its)"
    and i: "i < length its" and sk: "its ! i = Socket_item sk"
    and ord: "NODE_INTERFACE_PANEL_ALLOW_SOCKETS_AFTER_PANELS \<in> fl \<or>
              (\<forall>j < i. item_type (its ! j) = NODE_INTERFACE_SOCKET)"
  shows "version_node_group_split_socket ti i parent_ptr (int i + 1) =
     Inr (ti\<lparr>root_panel := panel_put (root_panel ti) path
              (Panel n fl
                 (take i its @
                  [Socket_item (sk\<lparr>socket_flag := socket_flag sk - {NODE_INTERFACE_SOCKET_INPUT}\<rparr>),
                   Socket_item (sk\<lparr>socket_identifier :=
                                     ''Socket_'' @ sprintf_d (sint (next_uid ti)),
                                   socket_flag := socket_flag sk - {NODE_INTERFACE_SOCKET_OUTPUT}\<rparr>)] @
                  drop (Suc i) its)),
             next_uid := next_uid ti + 1\<rparr>)"
proof -
  define ident where "ident = ''Socket_'' @ sprintf_d (sint (next_uid ti))"
  let ?cs = "version_copy_socket sk sk ident"
  have cs: "?cs = sk\<lparr>socket_identifier := ident\<rparr>"
    by (simp add: version_copy_socket_def)
  have pos: "version_nodes_find_valid_insert_position_for_item (Panel n fl its)
               (Socket_item ?cs) (int i + 1) = int i + 1"
  proof (cases "NODE_INTERFACE_PANEL_ALLOW_SOCKETS_AFTER_PANELS \<in> fl")
    case True
    then show ?thesis by (simp add: version_nodes_find_valid_insert_position_for_item_def)
  next
    case False
    with ord have before: "\<forall>j < i. item_type (its ! j) = NODE_INTERFACE_SOCKET" by simp
    have "\<forall>j. 0 \<le> j \<and> int j < int i + 1 \<and> j < length its \<longrightarrow>
        item_type (its ! j) = NODE_INTERFACE_SOCKET"
    proof (intro allI impI)
      fix j assume "0 \<le> j \<and> int j < int i + 1 \<and> j < length its"
      then have "j < i \<or> j = i" by auto
      then show "item_type (its ! j) = NODE_INTERFACE_SOCKET"
        using sk before by auto
    qed
    then have "socket_position_loop its (int i + 1) 0 (int i + 1) = int i + 1"
      by (rule socket_position_loop_no_panel) simp
    with False show ?thesis
      by (simp add: version_nodes_find_valid_insert_position_for_item_def)
  qed
  have ins: "version_nodes_insert_item (Panel n fl its) ?cs (int i + 1) =
      (Panel n fl (take (Suc i) its @ [Socket_item ?cs] @ drop (Suc i) its), Suc i)"
    using i by (simp add: version_nodes_insert_item_def pos Let_def nat_add_distrib)
  have tk: "take (Suc i) its = take i its @ [Socket_item sk]"
    using i sk by (simp add: take_Suc_conv_app_nth)
  have upd: "((take (Suc i) its @ [Socket_item ?cs] @ drop (Suc i) its)[i := a])[Suc i := b]
      = take i its @ [a, b] @ drop (Suc i) its" for a b
    using i by (simp add: tk list_update_append)
  have path: "(case parent_ptr of None \<Rightarrow> [] | Some p \<Rightarrow> p) = path"
    using pp by auto
  have "version_node_group_split_socket ti i parent_ptr (int i + 1) =
     Inr (ti\<lparr>root_panel := panel_put (root_panel ti) path
              (Panel n fl
                 (take i its @
                  [Socket_item (sk\<lparr>socket_flag := socket_flag sk - {NODE_INTERFACE_SOCKET_INPUT}\<rparr>),
                   Socket_item (?cs\<lparr>socket_flag := socket_flag ?cs - {NODE_INTERFACE_SOCKET_OUTPUT}\<rparr>)] @
                  drop (Suc i) its)),
             next_uid := next_uid ti + 1\<rparr>)"
    using par i sk
    by (simp add: version_node_group_split_socket_def Let_def path ins upd ident_def[symmetric]
          del: append.simps)
  then show ?thesis
    unfolding cs by (simp add: ident_def)
qed

text \<open>
  At the largest value of the counter the identifier is minted from 2147483647, and the
  increment leaves the counter at the smallest value.
\<close>

lemma split_socket_counter_wraps:
  "map_sum id (\<lambda>ti. (items_array (root_panel ti), sint (next_uid ti)))
     (version_node_group_split_socket (ex_dual_after_socket\<lparr>next_uid := 2147483647\<rparr>)
        1 (Some []) 2) =
   Inr ([Socket_item (ex_isocket ''X'' {NODE_INTERFACE_SOCKET_INPUT}),
         Socket_item (ex_isocket ''D'' {NODE_INTERFACE_SOCKET_OUTPUT}),
         Socket_item ((ex_isocket ''D'' {NODE_INTERFACE_SOCKET_INPUT})
                        \<lparr>socket_identifier := ''Socket_2147483647''\<rparr>),
         Panel_item (Panel ''P'' {} [])],
        - 2147483648)"
proof -
  let ?its = "[Socket_item (ex_isocket ''X'' {NODE_INTERFACE_SOCKET_INPUT}),
         Socket_item (ex_isocket ''D'' {NODE_INTERFACE_SOCKET_INPUT, NODE_INTERFACE_SOCKET_OUTPUT}),
         Panel_item (Panel ''P'' {} [])]"
  let ?ti = "ex_dual_after_socket\<lparr>next_uid := 2147483647\<rparr>"
  have h1: "Some [] = Some [] \<or> Some [] = None \<and> ([] :: nat list) = []"
    by simp
  have h2: "panel_at (root_panel ?ti) [] = Some (Panel [] {} ?its)"
    by (simp add: ex_dual_after_socket_def)
  have h3: "1 < length ?its" by simp
  have h4: "?its ! 1 = Socket_item
      (ex_isocket ''D'' {NODE_INTERFACE_SOCKET_INPUT, NODE_INTERFACE_SOCKET_OUTPUT})"
    by simp
  have h7: "NODE_INTERFACE_PANEL_ALLOW_SOCKETS_AFTER_PANELS \<in> {} \<or>
      (\<forall>j < 1. item_type (?its ! j) = NODE_INTERFACE_SOCKET)"
    by simp
  have uid: "sprintf_d 2147483647 = ''2147483647''"
    by (simp add: sprintf_d_def decimal_digits.simps decimal_digit_def)
  have wrap: "sint (2147483648 :: 32 word) = - 2147483648"
    by simp
  have fl: "{NODE_INTERFACE_SOCKET_INPUT, NODE_INTERFACE_SOCKET_OUTPUT} -
        {NODE_INTERFACE_SOCKET_INPUT} = {NODE_INTERFACE_SOCKET_OUTPUT}"
      "{NODE_INTERFACE_SOCKET_INPUT, NODE_INTERFACE_SOCKET_OUTPUT} -
        {NODE_INTERFACE_SOCKET_OUTPUT} = {NODE_INTERFACE_SOCKET_INPUT}"
    by auto
  show ?thesis
    using split_socket_result [OF h1 h2 h3 h4 h7] wrap
    by (simp add: uid ex_isocket_def fl)
qed




section \<open>Properties of the interface sort\<close>

declare versioning_node_group_sort_sockets_recursive.simps [simp del]

lemma item_compare_rank: "item_compare a b \<longleftrightarrow> item_rank a < item_rank b"
  by (cases a; cases b) (auto simp: item_compare_def)

lemma stable_insert_insort_key:
  "stable_insert item_compare x ys = insort_key item_rank x ys"
  by (induction ys) (auto simp: item_compare_rank)

lemma stable_sort_sort_key: "stable_sort item_compare xs = sort_key item_rank xs"
  by (induction xs) (simp_all add: stable_insert_insort_key)

lemma sort_panel_eq:
  "versioning_node_group_sort_sockets_recursive (Panel n fl its) =
     Panel n fl (map sort_child (sort_key item_rank its))"
proof -
  have "(\<lambda>item. case item of
                 Panel_item p \<Rightarrow> Panel_item (versioning_node_group_sort_sockets_recursive p)
               | Socket_item s \<Rightarrow> Socket_item s) = sort_child"
    by (rule ext) (simp split: bNodeTreeInterfaceItem.split)
  then show ?thesis
    by (simp add: versioning_node_group_sort_sockets_recursive.simps stable_sort_sort_key)
qed

lemma rank_sort_child [simp]: "item_rank (sort_child x) = item_rank x"
  by (cases x) auto

lemma rank_sort_child_comp [simp]: "item_rank \<circ> sort_child = item_rank"
  by (rule ext) simp

lemma sort_result_sorted: "panel_sorted (versioning_node_group_sort_sockets_recursive p)"
proof (induction p rule: versioning_node_group_sort_sockets_recursive.induct)
  case (1 n fl its)
  have "case item of Panel_item q \<Rightarrow> panel_sorted q | Socket_item _ \<Rightarrow> True"
    if "item \<in> set (map sort_child (sort_key item_rank its))" for item
  proof -
    from that obtain y where y: "y \<in> set its" "item = sort_child y" by auto
    show ?thesis
    proof (cases y)
      case (Socket_item s)
      with y show ?thesis by simp
    next
      case (Panel_item q)
      with y "1.IH"[of y q] show ?thesis by (simp add: stable_sort_sort_key)
    qed
  qed
  then show ?case
    by (simp add: sort_panel_eq del: set_map)
qed

lemma sorted_panel_fixpoint:
  "panel_sorted p \<Longrightarrow> versioning_node_group_sort_sockets_recursive p = p"
proof (induction p rule: panel_sorted.induct)
  case (1 n fl its)
  then have s: "sorted (map item_rank its)" by simp
  have "sort_child y = y" if "y \<in> set its" for y
  proof (cases y)
    case (Socket_item s)
    then show ?thesis by simp
  next
    case (Panel_item q)
    with that "1.prems" have "panel_sorted q" by auto
    with "1.IH"[OF that Panel_item] Panel_item show ?thesis by simp
  qed
  then have "map sort_child its = its" by (simp add: map_idI)
  with s show ?case by (simp add: sort_panel_eq sort_key_id_if_sorted)
qed

lemma sort_keeps_order_within_rank:
  "filter (\<lambda>y. item_rank y = k)
     (items_array (versioning_node_group_sort_sockets_recursive p)) =
   map sort_child (filter (\<lambda>y. item_rank y = k) (items_array p))"
proof (cases p)
  case (Panel n fl its)
  have "filter (\<lambda>y. item_rank y = k) (map sort_child (sort_key item_rank its))
      = map sort_child (filter (\<lambda>y. item_rank y = k) (sort_key item_rank its))"
    by (simp add: filter_map comp_def)
  then show ?thesis by (simp add: Panel sort_panel_eq sort_key_stable)
qed

lemma sort_sockets_block_idem:
  "sort_sockets_block (sort_sockets_block bmain) = sort_sockets_block bmain"
  by (simp add: sort_sockets_block_def MAIN_VERSION_FILE_ATLEAST_def comp_def
      sorted_panel_fixpoint sort_result_sorted)

text \<open>
  C8. The comparator puts output sockets before input sockets and sockets before panels.
  After the pass the items of the panel are in that order and so are the items of every
  nested panel; the items of one kind keep their relative order (a nested panel having been
  sorted in turn). A second application changes nothing, and a sorted panel is left as it
  is.
\<close>

theorem sort_sockets_normalizes:
  "(item_compare a b \<longleftrightarrow> item_rank a < item_rank b) \<and>
   panel_sorted (versioning_node_group_sort_sockets_recursive p) \<and>
   filter (\<lambda>y. item_rank y = k)
       (items_array (versioning_node_group_sort_sockets_recursive p)) =
     map sort_child (filter (\<lambda>y. item_rank y = k) (items_array p)) \<and>
   versioning_node_group_sort_sockets_recursive
       (versioning_node_group_sort_sockets_recursive p) =
     versioning_node_group_sort_sockets_recursive p \<and>
   (panel_sorted p \<longrightarrow> versioning_node_group_sort_sockets_recursive p = p)"
  by (simp add: item_compare_rank sort_result_sorted sort_keeps_order_within_rank
      sorted_panel_fixpoint)

theorem sort_sockets_normalizes_witness:
  "versioning_node_group_sort_sockets_recursive ex_unsorted_panel = ex_sorted_panel \<and>
   panel_sorted ex_sorted_panel \<and>
   versioning_node_group_sort_sockets_recursive ex_sorted_panel = ex_sorted_panel \<and>
   filter (\<lambda>y. item_rank y = 1) (items_array ex_sorted_panel) =
     map sort_child (filter (\<lambda>y. item_rank y = 1) (items_array ex_unsorted_panel))"
proof -
  have e: "versioning_node_group_sort_sockets_recursive ex_unsorted_panel = ex_sorted_panel"
    by (simp add: ex_unsorted_panel_def ex_sorted_panel_def ex_isocket_def
        versioning_node_group_sort_sockets_recursive.simps item_compare_def)
  show ?thesis
    using sort_sockets_normalizes [of "Socket_item (ex_isocket ''O1'' {NODE_INTERFACE_SOCKET_OUTPUT})"
        "Panel_item (Panel ''P'' {} [])" ex_unsorted_panel 1]
      sort_sockets_normalizes [of "Socket_item (ex_isocket ''O1'' {NODE_INTERFACE_SOCKET_OUTPUT})"
        "Panel_item (Panel ''P'' {} [])" ex_sorted_panel 1]
    by (simp add: e)
qed

end
